theory Spec2Isabelle
  imports Main "HOL-Library.Char_ord" "HOL-Library.List_Lexorder"
begin

section \<open>Python values and strings\<close>

text \<open>
  A Python \<open>str\<close> is modelled as a \<open>string\<close> whose characters are the code points
  below 256.  JSON values as \<open>json.loads\<close> returns them: \<open>None\<close>, booleans, integers,
  floats, strings, lists and dicts (a dict is an association list with distinct keys, in
  insertion order).  Of a float the program only asks whether it is zero and what its text
  is: a float is kept as that flag (true when it is not zero) with the text it was read
  from.
\<close>

datatype json =
    JNull
  | JBool bool
  | JInt int
  | JFloat bool string
  | JStr string
  | JList "json list"
  | JDict "(string \<times> json) list"

text \<open>Python truthiness, as used by \<open>x or y\<close> and \<open>if not x\<close>.\<close>

fun truthy :: "json \<Rightarrow> bool" where
  "truthy JNull = False"
| "truthy (JBool b) = b"
| "truthy (JInt i) = (i \<noteq> 0)"
| "truthy (JFloat nonzero lit) = nonzero"
| "truthy (JStr s) = (s \<noteq> [])"
| "truthy (JList xs) = (xs \<noteq> [])"
| "truthy (JDict kvs) = (kvs \<noteq> [])"

text \<open>\<open>type(v).__name__\<close>, as the interpreter's error messages print it.\<close>

fun type_name :: "json \<Rightarrow> string" where
  "type_name JNull = ''NoneType''"
| "type_name (JBool b) = ''bool''"
| "type_name (JInt i) = ''int''"
| "type_name (JFloat nonzero lit) = ''float''"
| "type_name (JStr s) = ''str''"
| "type_name (JList xs) = ''list''"
| "type_name (JDict kvs) = ''dict''"

text \<open>\<open>d.get(k)\<close> on a dict: \<open>None\<close> when the key is absent.\<close>

definition dict_get :: "(string \<times> json) list \<Rightarrow> string \<Rightarrow> json" where
  "dict_get d k = (case map_of d k of None \<Rightarrow> JNull | Some v \<Rightarrow> v)"

text \<open>\<open>a or b\<close>.\<close>

definition py_or :: "json \<Rightarrow> json \<Rightarrow> json" where
  "py_or a b = (if truthy a then a else b)"

text \<open>
  \<open>str(v)\<close>: the identity on a string; the text of any other value is the library's
  \<open>repr\<close>, a parameter.
\<close>

definition py_str :: "(json \<Rightarrow> string) \<Rightarrow> json \<Rightarrow> string" where
  "py_str repr v = (case v of JStr s \<Rightarrow> s | _ \<Rightarrow> repr v)"

text \<open>\<open>str.isspace\<close> on one code point below 256; it is also what \<open>\s\<close> matches.\<close>

definition is_space :: "char \<Rightarrow> bool" where
  "is_space c = (let n = (of_char c :: nat) in
     (9 \<le> n \<and> n \<le> 13) \<or> (28 \<le> n \<and> n \<le> 32) \<or> n = 133 \<or> n = 160)"

definition lstrip :: "string \<Rightarrow> string" where
  "lstrip s = dropWhile is_space s"

definition rstrip :: "string \<Rightarrow> string" where
  "rstrip s = rev (dropWhile is_space (rev s))"

definition strip :: "string \<Rightarrow> string" where
  "strip s = rstrip (lstrip s)"

text \<open>\<open>str.lower\<close> on code points below 256.\<close>

definition lower_char :: "char \<Rightarrow> char" where
  "lower_char c = (let n = (of_char c :: nat) in
     if (65 \<le> n \<and> n \<le> 90) \<or> (192 \<le> n \<and> n \<le> 222 \<and> n \<noteq> 215)
     then char_of (n + 32) else c)"

definition lower :: "string \<Rightarrow> string" where
  "lower s = map lower_char s"

text \<open>\<open>sub in s\<close> on strings.\<close>

fun contains :: "string \<Rightarrow> string \<Rightarrow> bool" where
  "contains sub [] = (sub = [])"
| "contains sub (c # cs) = (take (length sub) (c # cs) = sub \<or> contains sub cs)"

definition startswith :: "string \<Rightarrow> string \<Rightarrow> bool" where
  "startswith s p = (take (length p) s = p)"

definition endswith :: "string \<Rightarrow> string \<Rightarrow> bool" where
  "endswith s p = (length p \<le> length s \<and> drop (length s - length p) s = p)"

text \<open>\<open>sep.join(xs)\<close>.\<close>

fun join :: "string \<Rightarrow> string list \<Rightarrow> string" where
  "join sep [] = []"
| "join sep [x] = x"
| "join sep (x # y # ys) = x @ sep @ join sep (y # ys)"

text \<open>Decimal text of a natural number, as an f-string prints an \<open>int\<close>.\<close>

definition digit_char :: "nat \<Rightarrow> char" where
  "digit_char d = char_of (48 + d)"

fun str_nat :: "nat \<Rightarrow> string" where
  "str_nat n = (if n < 10 then [digit_char n] else str_nat (n div 10) @ [digit_char (n mod 10)])"

declare str_nat.simps [simp del]

text \<open>A text between single quotes, as error messages show a name.\<close>

definition quoted :: "string \<Rightarrow> string" where
  "quoted s = [CHR 0x27] @ s @ [CHR 0x27]"

definition NL :: string where
  "NL = [CHR 0x0A]"

section \<open>The HTTP transport and the process state\<close>

text \<open>
  What one \<open>urllib.request.urlopen\<close> call can do: answer with a body (already decoded
  by \<open>_decode_output\<close>) and its headers, raise \<open>HTTPError\<close> with a status code, a
  reason phrase and a body (\<open>None\<close> when reading it raises), or raise one of
  \<open>URLError\<close>, \<open>SSLError\<close>, \<open>OSError\<close>, carried with its \<open>str\<close> and its \<open>repr\<close>.
\<close>

datatype outcome =
    Response string "(string \<times> string) list"
  | HTTPError nat string "string option"
  | NetError string string

record request =
  req_url :: string
  req_method :: string
  req_data :: "json option"
  req_token :: string

text \<open>
  The library functions the program calls are parameters: the transport over a remote
  world \<open>'w\<close>, \<open>json.loads\<close> (\<open>None\<close> when it raises, and then \<open>loads_error\<close> is the
  text of its \<open>JSONDecodeError\<close>), \<open>repr\<close> of a
  value that is not a string, \<open>urllib.parse.quote\<close> and \<open>quote_plus\<close>, the formatted
  \<open>datetime.now()\<close>, \<open>textwrap.dedent\<close>, \<open>float\<close> of a string (\<open>None\<close> when it
  raises) with the float \<open>0.2\<close>, and the text that \<open>_extract_ai_text\<close> puts into its
  error (the exception's text and \<open>json.dumps(resp)\<close>).
\<close>

record 'w pylib =
  urlopen :: "'w \<Rightarrow> request \<Rightarrow> outcome \<times> 'w"
  loads :: "string \<Rightarrow> json option"
  loads_error :: "string \<Rightarrow> string"
  repr :: "json \<Rightarrow> string"
  quote :: "string \<Rightarrow> string"
  quote_plus :: "string \<Rightarrow> string"
  now_str :: string
  dedent :: "string \<Rightarrow> string"
  float_of_str :: "string \<Rightarrow> json option"
  float_0_2 :: json
  ai_error_detail :: "json \<Rightarrow> string"

text \<open>
  The state of a run: the remote world, the delays passed to \<open>time.sleep\<close> (in seconds,
  oldest first) and the lines printed (oldest first).
\<close>

record 'w io =
  world :: "'w"
  slept :: "nat list"
  printed :: "string list"

text \<open>The exceptions that leave a function, with \<open>str(e)\<close> for each.\<close>

datatype error =
    RuntimeError string
  | JSONDecodeError string
  | HTTPErr nat string
  | NetErr string
  | ValueError string
  | TypeError string
  | AttributeError string

fun exc_str :: "error \<Rightarrow> string" where
  "exc_str (RuntimeError m) = m"
| "exc_str (JSONDecodeError m) = m"
| "exc_str (HTTPErr c r) = ''HTTP Error '' @ str_nat c @ '': '' @ r"
| "exc_str (NetErr m) = m"
| "exc_str (ValueError m) = m"
| "exc_str (TypeError m) = m"
| "exc_str (AttributeError m) = m"

section \<open>\<open>_http_json\<close>\<close>

definition pat_marker :: string where
  "pat_marker = ''Resource not accessible by personal access token''"

definition hint :: string where
  "hint = NL @ NL @ ''Hint: Your GITHUB_TOKEN likely lacks permission to create issues in the target repo.'' @ NL
    @ ''- If you use a Fine-grained PAT: grant repository access to the target repo and enable 'Issues: Read and write'.'' @ NL
    @ ''- If you use a Classic PAT: ensure it has 'public_repo' (for public repos) or 'repo' (for private repos) scope.'' @ NL
    @ ''- Also ensure the token belongs to an account that has access to the target repo.'' @ NL"

definition retryable :: "nat \<Rightarrow> bool" where
  "retryable code = (code \<in> {403, 429, 500, 502, 503, 504})"

definition api_error_msg :: "nat \<Rightarrow> string \<Rightarrow> string \<Rightarrow> string" where
  "api_error_msg code reason body =
     ''GitHub API error: HTTP '' @ str_nat code @ '' '' @ reason @ NL @ body"

definition network_error_msg :: "string option \<Rightarrow> string" where
  "network_error_msg last_error =
     ''Request failed (network/SSL). '' @
     ''If you are behind a proxy, set HTTPS_PROXY/HTTP_PROXY. '' @
     ''If TLS handshake keeps failing, try --github-tls12. As a last resort, try --github-insecure. '' @
     ''Original: '' @ (case last_error of None \<Rightarrow> ''None'' | Some r \<Rightarrow> r)"

text \<open>\<open>{k.lower(): v for k, v in resp.headers.items()}\<close>: a later header replaces an
  earlier one with the same lowered name.\<close>

fun dict_set :: "(string \<times> 'v) list \<Rightarrow> string \<Rightarrow> 'v \<Rightarrow> (string \<times> 'v) list" where
  "dict_set [] k v = [(k, v)]"
| "dict_set ((k', v') # d) k v = (if k' = k then (k', v) # d else (k', v') # dict_set d k v)"

definition lower_headers :: "(string \<times> string) list \<Rightarrow> (string \<times> string) list" where
  "lower_headers hs = foldl (\<lambda>d (k, v). dict_set d (lower k) v) [] hs"

text \<open>
  The loop \<open>for attempt in range(retries)\<close> of \<open>_http_json\<close>, entered at \<open>attempt\<close>
  with the current \<open>last_error\<close>.  \<open>backoff_s\<close> is \<open>1.0\<close>, so the delay is \<open>2 ** attempt\<close>.
\<close>

function http_loop ::
  "'w pylib \<Rightarrow> request \<Rightarrow> nat \<Rightarrow> nat \<Rightarrow> string option \<Rightarrow> 'w io
     \<Rightarrow> (error + json \<times> (string \<times> string) list) \<times> 'w io" where
  "http_loop lib req retries attempt last_error st =
     (if attempt < retries then
        (case urlopen lib (world st) req of (oc, w') \<Rightarrow>
          (let st1 = st\<lparr>world := w'\<rparr> in
           case oc of
             Response text hs \<Rightarrow>
               (let resp_headers = lower_headers hs in
                if strip text = [] then (Inr (JNull, resp_headers), st1)
                else (case loads lib text of
                        None \<Rightarrow> (Inl (JSONDecodeError (loads_error lib text)), st1)
                      | Some j \<Rightarrow> (Inr (j, resp_headers), st1)))
           | HTTPError code reason ebody \<Rightarrow>
               (let body0 = (case ebody of None \<Rightarrow> [] | Some b \<Rightarrow> b);
                    body = (if code = 403 \<and> contains pat_marker body0 then body0 @ hint else body0)
                in if retryable code \<and> attempt + 1 < retries
                   then http_loop lib req retries (attempt + 1) last_error
                          (st1\<lparr>slept := slept st1 @ [1 * 2 ^ attempt]\<rparr>)
                   else (Inl (RuntimeError (api_error_msg code reason body)), st1))
           | NetError e_str e_repr \<Rightarrow>
               (if attempt + 1 < retries
                then http_loop lib req retries (attempt + 1) (Some e_repr)
                       (st1\<lparr>slept := slept st1 @ [1 * 2 ^ attempt]\<rparr>)
                else (Inl (RuntimeError (network_error_msg (Some e_repr))), st1))))
      else (Inl (RuntimeError (network_error_msg last_error)), st))"
  by pat_completeness auto
termination
  by (relation "measure (\<lambda>(lib, req, retries, attempt, last_error, st). retries - attempt)") auto

declare http_loop.simps [simp del]

text \<open>\<open>method.upper()\<close> on code points below 256 (\<open>\<mu>\<close> and \<open>\<ss>\<close>, whose upper-case
  forms lie outside that range, do not occur in a method name and are left as they are).\<close>

definition upper_char :: "char \<Rightarrow> char" where
  "upper_char c = (let n = (of_char c :: nat) in
     if (97 \<le> n \<and> n \<le> 122) \<or> (224 \<le> n \<and> n \<le> 254 \<and> n \<noteq> 247)
     then char_of (n - 32) else c)"

definition upper :: "string \<Rightarrow> string" where
  "upper s = map upper_char s"

text \<open>
  \<open>_http_json(url, method, token, ctx, payload, retries)\<close>.  The fixed request headers,
  the SSL context and the timeout do not reach the result and are left to the transport,
  which also serialises the payload (\<open>json.dumps(payload).encode("utf-8")\<close>).
\<close>

definition http_json ::
  "'w pylib \<Rightarrow> string \<Rightarrow> string \<Rightarrow> string \<Rightarrow> json option \<Rightarrow> nat \<Rightarrow> 'w io
     \<Rightarrow> (error + json \<times> (string \<times> string) list) \<times> 'w io" where
  "http_json lib url method token payload retries st =
     http_loop lib
       \<lparr>req_url = url, req_method = upper method,
        req_data = payload, req_token = token\<rparr>
       retries 0 None st"

definition default_retries :: nat where
  "default_retries = 5"

section \<open>Pagination: \<open>_parse_link_next\<close> and \<open>_iter_issues\<close>\<close>

text \<open>\<open>s.split(c)\<close> for a one-character separator.\<close>

fun split_on :: "char \<Rightarrow> string \<Rightarrow> string list" where
  "split_on c [] = [[]]"
| "split_on c (x # xs) =
     (if x = c then [] # split_on c xs
      else (case split_on c xs of [] \<Rightarrow> [[x]] | y # ys \<Rightarrow> (x # y) # ys))"

text \<open>
  \<open>re.search(r"<([^>]+)>", part)\<close>, giving group 1: at the first \<open><\<close> that is
  followed by one or more characters other than \<open>>\<close> and then by \<open>>\<close>.
\<close>

fun search_angle :: "string \<Rightarrow> string option" where
  "search_angle [] = None"
| "search_angle (c # cs) =
     (if c = CHR ''<'' \<and> takeWhile (\<lambda>x. x \<noteq> CHR ''>'') cs \<noteq> []
           \<and> dropWhile (\<lambda>x. x \<noteq> CHR ''>'') cs \<noteq> []
      then Some (takeWhile (\<lambda>x. x \<noteq> CHR ''>'') cs)
      else search_angle cs)"

definition rel_next :: "string \<Rightarrow> bool" where
  "rel_next part = (contains ''rel=\"next\"'' part \<or> contains ''rel=next'' part)"

text \<open>The loop over the parts of the header.\<close>

fun first_next :: "string list \<Rightarrow> string" where
  "first_next [] = []"
| "first_next (part # parts) =
     (if rel_next part then
        (case search_angle part of Some u \<Rightarrow> u | None \<Rightarrow> first_next parts)
      else first_next parts)"

definition parse_link_next :: "string \<Rightarrow> string" where
  "parse_link_next link_header =
     (if link_header = [] then []
      else first_next (map strip (split_on (CHR '','') link_header)))"

text \<open>\<open>headers.get("link", "")\<close> on the lowered response headers.\<close>

definition header_get :: "(string \<times> string) list \<Rightarrow> string \<Rightarrow> string" where
  "header_get hs k = (case map_of hs k of None \<Rightarrow> [] | Some v \<Rightarrow> v)"

text \<open>An item of a page is kept when it is a dict without the key \<open>pull_request\<close>.\<close>

fun keep_issue :: "json \<Rightarrow> bool" where
  "keep_issue (JDict d) = (''pull_request'' \<notin> fst ` set d)"
| "keep_issue _ = False"

text \<open>\<open>owner, name = repo.split("/", 1)\<close>: \<open>None\<close> when the unpacking raises.\<close>

definition split_repo :: "string \<Rightarrow> (string \<times> string) option" where
  "split_repo repo =
     (if CHR ''/'' \<in> set repo
      then Some (takeWhile (\<lambda>x. x \<noteq> CHR ''/'') repo, tl (dropWhile (\<lambda>x. x \<noteq> CHR ''/'') repo))
      else None)"

definition unpack_error :: error where
  "unpack_error = ValueError ''not enough values to unpack (expected 2, got 1)''"

text \<open>\<open>s.rstrip("/")\<close>.\<close>

definition rstrip_slash :: "string \<Rightarrow> string" where
  "rstrip_slash s = rev (dropWhile (\<lambda>x. x = CHR ''/'') (rev s))"

text \<open>The first page's URL; \<open>urlencode\<close> applies \<open>quote_plus\<close> to each value, and leaves
  \<open>100\<close>, \<open>updated\<close> and \<open>desc\<close> as they are.\<close>

definition issues_url :: "'w pylib \<Rightarrow> string \<Rightarrow> string \<Rightarrow> string \<Rightarrow> string \<Rightarrow> string \<Rightarrow> string" where
  "issues_url lib api_base owner name state labels =
     rstrip_slash api_base @ ''/repos/'' @ quote lib owner @ ''/'' @ quote lib name @ ''/issues''
     @ ''?'' @ ''state='' @ quote_plus lib state @ ''&per_page=100&sort=updated&direction=desc''
     @ (if labels \<noteq> [] then ''&labels='' @ quote_plus lib labels else [])"

text \<open>
  The loop \<open>while url:\<close> of \<open>_iter_issues\<close> in \<open>import_anthropic_skills.py\<close>.  It
  need not end (the pages may link in a circle), hence the option: \<open>None\<close> is a run
  that never returns.
\<close>

partial_function (option) iter_pages ::
  "'w pylib \<Rightarrow> string \<Rightarrow> string \<Rightarrow> json list \<Rightarrow> 'w io \<Rightarrow> ((error + json list) \<times> 'w io) option" where
  "iter_pages lib token url out st =
     (if url = [] then Some (Inr out, st)
      else
        (case http_json lib url ''GET'' token None default_retries st of
           (Inl e, st') \<Rightarrow> Some (Inl e, st')
         | (Inr (data, headers), st') \<Rightarrow>
             (case data of
                JList items \<Rightarrow>
                  iter_pages lib token (parse_link_next (header_get headers ''link''))
                    (out @ filter keep_issue items) st'
              | _ \<Rightarrow>
                  Some (Inl (RuntimeError (''Unexpected GitHub response (expected list): ''
                          @ take 500 (py_str (repr lib) data))), st'))))"

declare iter_pages.simps [code]

definition iter_issues ::
  "'w pylib \<Rightarrow> string \<Rightarrow> string \<Rightarrow> string \<Rightarrow> string \<Rightarrow> string \<Rightarrow> 'w io
     \<Rightarrow> ((error + json list) \<times> 'w io) option" where
  "iter_issues lib api_base repo token state labels st =
     (case split_repo repo of
        None \<Rightarrow> Some (Inl unpack_error, st)
      | Some (owner, name) \<Rightarrow>
          iter_pages lib token (issues_url lib api_base owner name state labels) [] st)"

text \<open>
  The link header as the API writes it: a list of entries \<open><url>; rel="name"\<close>, joined
  by a comma and a space, where the name is one of \<open>next\<close>, \<open>prev\<close>, \<open>first\<close> and
  \<open>last\<close>.  The next page is the URL of the entry named \<open>next\<close>.
\<close>

datatype link_rel = RelNext | RelPrev | RelFirst | RelLast

fun rel_name :: "link_rel \<Rightarrow> string" where
  "rel_name RelNext = ''next''"
| "rel_name RelPrev = ''prev''"
| "rel_name RelFirst = ''first''"
| "rel_name RelLast = ''last''"

definition render_entry :: "string \<times> link_rel \<Rightarrow> string" where
  "render_entry e = ''<'' @ fst e @ ''>; rel=\"'' @ rel_name (snd e) @ ''\"''"

definition render_link :: "(string \<times> link_rel) list \<Rightarrow> string" where
  "render_link entries = join '', '' (map render_entry entries)"

definition next_url :: "(string \<times> link_rel) list \<Rightarrow> string option" where
  "next_url entries =
     (case filter (\<lambda>e. snd e = RelNext) entries of [] \<Rightarrow> None | e # es \<Rightarrow> Some (fst e))"

text \<open>A URL that the entries of a link header can hold without ambiguity: not empty,
  without a comma or \<open>>\<close>, and without the text that names the relation \<open>next\<close>.\<close>

definition plain_url :: "string \<Rightarrow> bool" where
  "plain_url u =
     (u \<noteq> [] \<and> CHR '','' \<notin> set u \<and> CHR ''>'' \<notin> set u
      \<and> \<not> contains ''rel=\"next\"'' u \<and> \<not> contains ''rel=next'' u)"

text \<open>The response headers \<open>hs\<close> hold the link header \<open>v\<close> (under any spelling of its
  name, each header name occurring once); no link header at all counts as the empty one.\<close>

definition link_is :: "(string \<times> string) list \<Rightarrow> string \<Rightarrow> bool" where
  "link_is hs v =
     (distinct (map (\<lambda>h. lower (fst h)) hs)
      \<and> ((\<exists>h \<in> set hs. lower (fst h) = ''link'' \<and> snd h = v)
         \<or> (v = [] \<and> ''link'' \<notin> set (map (\<lambda>h. lower (fst h)) hs))))"

text \<open>The request for one page of a listing.\<close>

definition get_request :: "string \<Rightarrow> string \<Rightarrow> request" where
  "get_request url token = \<lparr>req_url = url, req_method = ''GET'', req_data = None, req_token = token\<rparr>"

text \<open>
  \<open>pages_chain lib token url w pages w'\<close>: from the world \<open>w\<close> on, the request for
  \<open>url\<close> is answered by the first of \<open>pages\<close>, with a link header whose \<open>next\<close> entry
  names the URL that is answered by the second page, and so on; the last page has no
  \<open>next\<close> entry, and the world is then \<open>w'\<close>.
\<close>

inductive pages_chain ::
  "'w pylib \<Rightarrow> string \<Rightarrow> string \<Rightarrow> 'w \<Rightarrow> json list list \<Rightarrow> 'w \<Rightarrow> bool" where
  last_page:
    "urlopen lib w (get_request url token) = (Response body hs, w')
     \<Longrightarrow> strip body \<noteq> [] \<Longrightarrow> loads lib body = Some (JList items)
     \<Longrightarrow> link_is hs (render_link entries)
     \<Longrightarrow> \<forall>e \<in> set entries. plain_url (fst e)
     \<Longrightarrow> next_url entries = None
     \<Longrightarrow> pages_chain lib token url w [items] w'"
| next_page:
    "urlopen lib w (get_request url token) = (Response body hs, w1)
     \<Longrightarrow> strip body \<noteq> [] \<Longrightarrow> loads lib body = Some (JList items)
     \<Longrightarrow> link_is hs (render_link entries)
     \<Longrightarrow> \<forall>e \<in> set entries. plain_url (fst e)
     \<Longrightarrow> next_url entries = Some u
     \<Longrightarrow> pages_chain lib token u w1 pages w'
     \<Longrightarrow> pages_chain lib token url w (items # pages) w'"

fun is_dict :: "json \<Rightarrow> bool" where
  "is_dict (JDict d) = True"
| "is_dict _ = False"

fun has_pull_request :: "json \<Rightarrow> bool" where
  "has_pull_request (JDict d) = (''pull_request'' \<in> fst ` set d)"
| "has_pull_request _ = False"

section \<open>The issue lister: \<open>_request_json\<close> and \<open>_iter_issues\<close> of \<open>list_issues.py\<close>\<close>

record issue_item =
  item_number :: int
  item_title :: string
  item_html_url :: string
  item_state :: string
  item_created_at :: string
  item_updated_at :: string
  item_labels :: "string list"
  item_assignees :: "string list"
  item_comments :: int

text \<open>One request, without retry; the body must be a JSON list.\<close>

definition request_json ::
  "'w pylib \<Rightarrow> string \<Rightarrow> string \<Rightarrow> 'w io \<Rightarrow> (error + json list \<times> (string \<times> string) list) \<times> 'w io" where
  "request_json lib url token st =
     (case urlopen lib (world st)
             \<lparr>req_url = url, req_method = ''GET'', req_data = None, req_token = token\<rparr> of
        (oc, w') \<Rightarrow>
          (let st1 = st\<lparr>world := w'\<rparr> in
           case oc of
             Response body hs \<Rightarrow>
               (case loads lib body of
                  None \<Rightarrow> (Inl (JSONDecodeError (loads_error lib body)), st1)
                | Some data \<Rightarrow>
                    (case data of
                       JList items \<Rightarrow> (Inr (items, lower_headers hs), st1)
                     | _ \<Rightarrow> (Inl (RuntimeError (''Unexpected GitHub response (expected list): ''
                                  @ take 500 body)), st1)))
           | HTTPError code reason ebody \<Rightarrow>
               (Inl (RuntimeError (api_error_msg code reason
                       (case ebody of None \<Rightarrow> [] | Some b \<Rightarrow> b))), st1)
           | NetError e_str e_repr \<Rightarrow> (Inl (NetErr e_str), st1)))"

text \<open>
  \<open>int(v or 0)\<close> and \<open>str(v or "")\<close>.  \<open>int\<close> of a string is the library's parser,
  the parameter \<open>int_of_str\<close>, which gives the integer or the text of its \<open>ValueError\<close>;
  \<open>int\<close> of a float is the parameter \<open>int_of_float\<close> in the same way.
\<close>

record int_lib =
  int_of_str :: "string \<Rightarrow> string + int"
  int_of_float :: "string \<Rightarrow> string + int"

definition int_or_0 :: "int_lib \<Rightarrow> json \<Rightarrow> error + int" where
  "int_or_0 ilib v =
     (case py_or v (JInt 0) of
        JInt i \<Rightarrow> Inr i
      | JBool b \<Rightarrow> Inr (if b then 1 else 0)
      | JFloat nonzero lit \<Rightarrow>
          (case int_of_float ilib lit of Inl m \<Rightarrow> Inl (ValueError m) | Inr i \<Rightarrow> Inr i)
      | JStr s \<Rightarrow> (case int_of_str ilib s of Inl m \<Rightarrow> Inl (ValueError m) | Inr i \<Rightarrow> Inr i)
      | w \<Rightarrow> Inl (TypeError (''int() argument must be a string, a bytes-like object or a real number, not ''
                         @ quoted (type_name w))))"

definition str_or_empty :: "'w pylib \<Rightarrow> json \<Rightarrow> string" where
  "str_or_empty lib v = py_str (repr lib) (py_or v (JStr []))"

text \<open>
  \<open>[str(l.get(key)) for l in (v or []) if isinstance(l, dict)]\<close>: the elements of a
  string or the keys of a dict are strings and are all dropped; a number is not iterable.
\<close>

definition names_of :: "'w pylib \<Rightarrow> string \<Rightarrow> json \<Rightarrow> error + string list" where
  "names_of lib key v =
     (case py_or v (JList []) of
        JList ls \<Rightarrow>
          Inr (concat (map (\<lambda>l. case l of JDict d \<Rightarrow> [py_str (repr lib) (dict_get d key)] | _ \<Rightarrow> []) ls))
      | JStr s \<Rightarrow> Inr []
      | JDict d \<Rightarrow> Inr []
      | w \<Rightarrow> Inl (TypeError (quoted (type_name w) @ '' object is not iterable'')))"

text \<open>The \<open>IssueItem\<close> built from one kept dict; the arguments are evaluated in order.\<close>

definition issue_item_of ::
  "'w pylib \<Rightarrow> int_lib \<Rightarrow> (string \<times> json) list \<Rightarrow> error + issue_item" where
  "issue_item_of lib ilib d =
     (case int_or_0 ilib (dict_get d ''number'') of
        Inl e \<Rightarrow> Inl e
      | Inr n \<Rightarrow>
     (case names_of lib ''name'' (dict_get d ''labels'') of
        Inl e \<Rightarrow> Inl e
      | Inr ls \<Rightarrow>
     (case names_of lib ''login'' (dict_get d ''assignees'') of
        Inl e \<Rightarrow> Inl e
      | Inr as \<Rightarrow>
     (case int_or_0 ilib (dict_get d ''comments'') of
        Inl e \<Rightarrow> Inl e
      | Inr c \<Rightarrow>
          Inr \<lparr>item_number = n,
               item_title = str_or_empty lib (dict_get d ''title''),
               item_html_url = str_or_empty lib (dict_get d ''html_url''),
               item_state = str_or_empty lib (dict_get d ''state''),
               item_created_at = str_or_empty lib (dict_get d ''created_at''),
               item_updated_at = str_or_empty lib (dict_get d ''updated_at''),
               item_labels = ls, item_assignees = as, item_comments = c\<rparr>))))"

definition issue_item :: "'w pylib \<Rightarrow> int_lib \<Rightarrow> json \<Rightarrow> error + issue_item" where
  "issue_item lib ilib it =
     (case it of JDict d \<Rightarrow> issue_item_of lib ilib d
               | w \<Rightarrow> Inl (AttributeError (quoted (type_name w) @ '' object has no attribute '' @ quoted ''get'')))"

text \<open>The \<open>for it in data\<close> loop of the generator: the items yielded from one page, or
  the exception that ends the generator.\<close>

fun page_items :: "'w pylib \<Rightarrow> int_lib \<Rightarrow> json list \<Rightarrow> error + issue_item list" where
  "page_items lib ilib [] = Inr []"
| "page_items lib ilib (it # its) =
     (if \<not> is_dict it then page_items lib ilib its
      else if has_pull_request it then page_items lib ilib its
      else (case issue_item lib ilib it of
              Inl e \<Rightarrow> Inl e
            | Inr x \<Rightarrow>
                (case page_items lib ilib its of
                   Inl e \<Rightarrow> Inl e
                 | Inr xs \<Rightarrow> Inr (x # xs))))"

text \<open>The generator, run to its end by \<open>list(...)\<close>.\<close>

partial_function (option) lister_pages ::
  "'w pylib \<Rightarrow> int_lib \<Rightarrow> string \<Rightarrow> string \<Rightarrow> issue_item list \<Rightarrow> 'w io
     \<Rightarrow> ((error + issue_item list) \<times> 'w io) option" where
  "lister_pages lib ilib token url out st =
     (if url = [] then Some (Inr out, st)
      else
        (case request_json lib url token st of
           (Inl e, st') \<Rightarrow> Some (Inl e, st')
         | (Inr (data, headers), st') \<Rightarrow>
             (case page_items lib ilib data of
                Inl e \<Rightarrow> Some (Inl e, st')
              | Inr xs \<Rightarrow>
                  lister_pages lib ilib token
                    (parse_link_next (header_get headers ''link'')) (out @ xs) st')))"

declare lister_pages.simps [code]

definition lister_issues_url :: "'w pylib \<Rightarrow> string \<Rightarrow> string \<Rightarrow> string \<Rightarrow> string \<Rightarrow> string" where
  "lister_issues_url lib api_base owner name state =
     rstrip_slash api_base @ ''/repos/'' @ quote lib owner @ ''/'' @ quote lib name @ ''/issues''
     @ ''?'' @ ''state='' @ quote_plus lib state @ ''&per_page=100&sort=updated&direction=desc''"

definition lister_iter_issues ::
  "'w pylib \<Rightarrow> int_lib \<Rightarrow> string \<Rightarrow> string \<Rightarrow> string \<Rightarrow> string \<Rightarrow> 'w io
     \<Rightarrow> ((error + issue_item list) \<times> 'w io) option" where
  "lister_iter_issues lib ilib api_base repo token state st =
     (case split_repo repo of
        None \<Rightarrow> Some (Inl unpack_error, st)
      | Some (owner, name) \<Rightarrow>
          lister_pages lib ilib token (lister_issues_url lib api_base owner name state) [] st)"

section \<open>The content picker: \<open>_pick_skill_markdown\<close>\<close>

text \<open>\<open>[it for it in data if isinstance(it, dict) and it.get("type") == "file"]\<close>.\<close>

definition file_dicts :: "json list \<Rightarrow> (string \<times> json) list list" where
  "file_dicts data =
     concat (map (\<lambda>it. case it of
                          JDict d \<Rightarrow> if dict_get d ''type'' = JStr ''file'' then [d] else []
                        | _ \<Rightarrow> []) data)"

text \<open>\<open>str(it.get("name") or "").lower()\<close>.\<close>

definition lower_name :: "'w pylib \<Rightarrow> (string \<times> json) list \<Rightarrow> string" where
  "lower_name lib d = lower (str_or_empty lib (dict_get d ''name''))"

text \<open>The dict \<open>lower\<close> of \<open>find_name\<close>: a later file replaces an earlier one with the
  same lowered name.\<close>

definition lower_dict ::
  "'w pylib \<Rightarrow> (string \<times> json) list list \<Rightarrow> (string \<times> (string \<times> json) list) list" where
  "lower_dict lib files = foldl (\<lambda>m d. dict_set m (lower_name lib d) d) [] files"

fun find_name_loop ::
  "(string \<times> (string \<times> json) list) list \<Rightarrow> string list \<Rightarrow> (string \<times> json) list option" where
  "find_name_loop m [] = None"
| "find_name_loop m (n # ns) =
     (case map_of m (lower n) of Some d \<Rightarrow> Some d | None \<Rightarrow> find_name_loop m ns)"

definition find_name ::
  "'w pylib \<Rightarrow> (string \<times> json) list list \<Rightarrow> string list \<Rightarrow> (string \<times> json) list option" where
  "find_name lib files names = find_name_loop (lower_dict lib files) names"

text \<open>The candidate: lines 372 to 376.\<close>

definition pick_candidate ::
  "'w pylib \<Rightarrow> (string \<times> json) list list \<Rightarrow> (string \<times> json) list option" where
  "pick_candidate lib files =
     (case find_name lib files [''SKILL.md'', ''README.md'', ''readme.md''] of
        Some d \<Rightarrow> Some d
      | None \<Rightarrow>
          (let md_files = sort_key (lower_name lib)
                            (filter (\<lambda>d. endswith (lower_name lib d) ''.md'') files)
           in case md_files of [] \<Rightarrow> None | d # ds \<Rightarrow> Some d))"

text \<open>\<open>s.strip("/")\<close>.\<close>

definition strip_slash :: "string \<Rightarrow> string" where
  "strip_slash s = rstrip_slash (dropWhile (\<lambda>x. x = CHR ''/'') s)"

definition contents_url :: "'w pylib \<Rightarrow> string \<Rightarrow> string \<Rightarrow> string \<Rightarrow> string \<Rightarrow> string \<Rightarrow> string" where
  "contents_url lib api_base owner name path ref =
     rstrip_slash api_base @ ''/repos/'' @ quote lib owner @ ''/'' @ quote lib name
     @ ''/contents/'' @ quote lib (strip_slash path) @ ''?'' @ ''ref='' @ quote_plus lib ref"

text \<open>The file name returned for a candidate, and the whole function with its two
  requests: the listing through \<open>_http_json\<close>, the download through \<open>urlopen\<close>, whose
  exceptions are not caught here.\<close>

definition picked_name :: "'w pylib \<Rightarrow> (string \<times> json) list list \<Rightarrow> string" where
  "picked_name lib files =
     (case pick_candidate lib files of
        None \<Rightarrow> []
      | Some d \<Rightarrow>
          if d = [] then []
          else if strip (str_or_empty lib (dict_get d ''download_url'')) = [] then []
          else strip (str_or_empty lib (dict_get d ''name'')))"

definition pick_skill_markdown ::
  "'w pylib \<Rightarrow> string \<Rightarrow> string \<Rightarrow> string \<Rightarrow> string \<Rightarrow> string \<Rightarrow> 'w io
     \<Rightarrow> (error + string \<times> string) \<times> 'w io" where
  "pick_skill_markdown lib api_base repo ref skill_path token st =
     (case split_repo repo of
        None \<Rightarrow> (Inl unpack_error, st)
      | Some (owner, name) \<Rightarrow>
          (case http_json lib (contents_url lib api_base owner name skill_path ref) ''GET'' token
                  None default_retries st of
             (Inl e, st1) \<Rightarrow> (Inl e, st1)
           | (Inr (data, headers), st1) \<Rightarrow>
               (case data of
                  JList items \<Rightarrow>
                    (case pick_candidate lib (file_dicts items) of
                       None \<Rightarrow> (Inr ([], []), st1)
                     | Some d \<Rightarrow>
                         if d = [] then (Inr ([], []), st1)
                         else
                           (let download_url = strip (str_or_empty lib (dict_get d ''download_url''));
                                file_name = strip (str_or_empty lib (dict_get d ''name''))
                            in if download_url = [] then (Inr ([], []), st1)
                               else
                                 (case urlopen lib (world st1)
                                         \<lparr>req_url = download_url, req_method = ''GET'',
                                          req_data = None, req_token = token\<rparr> of
                                    (Response content hs, w') \<Rightarrow>
                                      (Inr (file_name, content), st1\<lparr>world := w'\<rparr>)
                                  | (HTTPError code reason ebody, w') \<Rightarrow>
                                      (Inl (HTTPErr code reason), st1\<lparr>world := w'\<rparr>)
                                  | (NetError e_str e_repr, w') \<Rightarrow>
                                      (Inl (NetErr e_str), st1\<lparr>world := w'\<rparr>))))
                | _ \<Rightarrow> (Inr ([], []), st1))))"

text \<open>The directory entry of a file, as the contents API lists it.\<close>

definition file_entry :: "string \<Rightarrow> (string \<times> json) list" where
  "file_entry n = [(''type'', JStr ''file''), (''name'', JStr n),
                   (''download_url'', JStr (''https://raw.githubusercontent.com/o/r/main/'' @ n))]"

text \<open>
  The picker as C5 words it, on the file names of a listing: the exact names
  \<open>SKILL.md\<close>, \<open>README.md\<close>, \<open>readme.md\<close> in this order, then the smallest name ending
  in \<open>.md\<close>, else nothing.
\<close>

definition pick_exact_names :: "string list \<Rightarrow> string" where
  "pick_exact_names names =
     (if ''SKILL.md'' \<in> set names then ''SKILL.md''
      else if ''README.md'' \<in> set names then ''README.md''
      else if ''readme.md'' \<in> set names then ''readme.md''
      else (case sort (filter (\<lambda>n. endswith n ''.md'') names) of [] \<Rightarrow> [] | n # ns \<Rightarrow> n))"

section \<open>The embedded metadata: \<open>_extract_skill_metadata_repo_url\<close>\<close>

text \<open>
  \<open>re.search(r"<!--\s*operit-skill-json:\s*(\{.*?\})\s*-->", issue_body, re.DOTALL)\<close>,
  giving group 1.  A greedy \<open>\s*\<close> before a character that is not a space takes all the
  spaces; the lazy \<open>.*?\<close> ends at the first \<open>}\<close> that is followed by optional spaces
  and \<open>-->\<close>.
\<close>

fun scan_close :: "string \<Rightarrow> string \<Rightarrow> string option" where
  "scan_close acc [] = None"
| "scan_close acc (c # cs) =
     (if c = CHR ''}'' \<and> startswith (dropWhile is_space cs) ''-->''
      then Some (acc @ [c])
      else scan_close (acc @ [c]) cs)"

definition match_meta_here :: "string \<Rightarrow> string option" where
  "match_meta_here s =
     (if startswith s ''<!--'' then
        (let s1 = dropWhile is_space (drop 4 s) in
         if startswith s1 ''operit-skill-json:'' then
           (let s2 = dropWhile is_space (drop 18 s1) in
            if startswith s2 ''{'' then scan_close ''{'' (drop 1 s2) else None)
         else None)
      else None)"

fun search_meta :: "string \<Rightarrow> string option" where
  "search_meta [] = None"
| "search_meta (c # cs) =
     (case match_meta_here (c # cs) of Some raw \<Rightarrow> Some raw | None \<Rightarrow> search_meta cs)"

definition extract_skill_metadata_repo_url :: "'w pylib \<Rightarrow> string \<Rightarrow> string" where
  "extract_skill_metadata_repo_url lib issue_body =
     (if issue_body = [] then []
      else
        (case search_meta issue_body of
           None \<Rightarrow> []
         | Some raw \<Rightarrow>
             (case loads lib raw of
                None \<Rightarrow> []
              | Some meta \<Rightarrow>
                  (case meta of
                     JDict d \<Rightarrow>
                       strip (py_str (repr lib)
                         (py_or (dict_get d ''repositoryUrl'')
                            (py_or (dict_get d ''repoUrl'') (JStr []))))
                   | _ \<Rightarrow> []))))"

section \<open>The issue body: \<open>_build_operit_issue_body\<close>\<close>

text \<open>
  \<open>json.dumps(metadata, ensure_ascii=False, separators=(',', ':'))\<close> for the metadata
  dict, whose four values are strings: a string is written between quotes, with the
  quote, the backslash and the control characters escaped.
\<close>

definition hex_digit :: "nat \<Rightarrow> char" where
  "hex_digit d = (if d < 10 then char_of (48 + d) else char_of (87 + d))"

definition escape_char :: "char \<Rightarrow> string" where
  "escape_char c =
     (if c = CHR 0x22 then [CHR 0x5C, CHR 0x22]
      else if c = CHR 0x5C then [CHR 0x5C, CHR 0x5C]
      else if c = CHR 0x08 then [CHR 0x5C, CHR ''b'']
      else if c = CHR 0x0C then [CHR 0x5C, CHR ''f'']
      else if c = CHR 0x0A then [CHR 0x5C, CHR ''n'']
      else if c = CHR 0x0D then [CHR 0x5C, CHR ''r'']
      else if c = CHR 0x09 then [CHR 0x5C, CHR ''t'']
      else if (of_char c :: nat) < 32
        then [CHR 0x5C, CHR ''u'', CHR ''0'', CHR ''0'',
              hex_digit ((of_char c :: nat) div 16), hex_digit ((of_char c :: nat) mod 16)]
      else [c])"

definition dumps_str :: "string \<Rightarrow> string" where
  "dumps_str s = [CHR 0x22] @ concat (map escape_char s) @ [CHR 0x22]"

definition metadata :: "string \<Rightarrow> string \<Rightarrow> json" where
  "metadata repository_url version =
     JDict [(''repositoryUrl'', JStr repository_url), (''category'', JStr []),
            (''tags'', JStr []), (''version'', JStr version)]"

definition dumps_metadata :: "string \<Rightarrow> string \<Rightarrow> string" where
  "dumps_metadata repository_url version =
     ''{'' @ dumps_str ''repositoryUrl'' @ '':'' @ dumps_str repository_url
     @ '','' @ dumps_str ''category'' @ '':'' @ dumps_str []
     @ '','' @ dumps_str ''tags'' @ '':'' @ dumps_str []
     @ '','' @ dumps_str ''version'' @ '':'' @ dumps_str version @ ''}''"

text \<open>
  The headings and labels of the template hold characters above 255; \<open>lit n\<close> stands
  for the literal text of source line \<open>n\<close> (for an f-string, the text before the
  placeholder).
\<close>

definition build_operit_issue_body ::
  "'w pylib \<Rightarrow> (nat \<Rightarrow> string) \<Rightarrow> string \<Rightarrow> string \<Rightarrow> string \<Rightarrow> string" where
  "build_operit_issue_body lib lit description repository_url version =
     join NL
       ([''<!-- operit-skill-json: '' @ dumps_metadata repository_url version @ '' -->'',
         ''<!-- operit-parser-version: '' @ version @ '' -->'',
         [],
         lit 476,
         [],
         lit 478 @ description,
         []]
        @ (if repository_url \<noteq> [] then [lit 482, [], lit 484 @ repository_url, []] else [])
        @ (if repository_url \<noteq> []
           then [lit 488, [], lit 490, lit 491, lit 492 @ repository_url @ ''`'', lit 493, []]
           else [])
        @ [lit 496, [], lit 498, ''|------|-----|'', lit 500, lit 501,
           lit 502 @ now_str lib @ '' |'', lit 503, []])"

text \<open>A \<open>}\<close> followed by optional spaces and \<open>-->\<close>.\<close>

fun early_close :: "string \<Rightarrow> bool" where
  "early_close [] = False"
| "early_close (c # cs) =
     ((c = CHR ''}'' \<and> startswith (dropWhile is_space cs) ''-->'') \<or> early_close cs)"

section \<open>Skill discovery\<close>

record source_skill =
  sk_name :: string
  sk_path :: string
  sk_html_url :: string

text \<open>\<open>_list_source_skills\<close>: the directories listed under the root path.\<close>

definition dir_skills :: "'w pylib \<Rightarrow> json list \<Rightarrow> source_skill list" where
  "dir_skills lib data =
     concat (map (\<lambda>it. case it of
        JDict d \<Rightarrow>
          if dict_get d ''type'' = JStr ''dir''
          then [\<lparr>sk_name = strip (str_or_empty lib (dict_get d ''name'')),
                 sk_path = strip (str_or_empty lib (dict_get d ''path'')),
                 sk_html_url = strip (str_or_empty lib (dict_get d ''html_url''))\<rparr>]
          else []
      | _ \<Rightarrow> []) data)"

definition list_source_skills ::
  "'w pylib \<Rightarrow> string \<Rightarrow> string \<Rightarrow> string \<Rightarrow> string \<Rightarrow> string \<Rightarrow> 'w io
     \<Rightarrow> (error + source_skill list) \<times> 'w io" where
  "list_source_skills lib api_base repo ref root_path token st =
     (case split_repo repo of
        None \<Rightarrow> (Inl unpack_error, st)
      | Some (owner, name) \<Rightarrow>
          (case http_json lib (contents_url lib api_base owner name root_path ref) ''GET'' token
                  None default_retries st of
             (Inl e, st1) \<Rightarrow> (Inl e, st1)
           | (Inr (data, headers), st1) \<Rightarrow>
               (case data of
                  JList items \<Rightarrow>
                    (Inr (sort_key sk_name
                            (filter (\<lambda>s. sk_name s \<noteq> []) (dir_skills lib items))), st1)
                | _ \<Rightarrow>
                    (Inl (RuntimeError (''Unexpected source contents response: ''
                            @ take 500 (py_str (repr lib) data))), st1))))"

text \<open>\<open>_get_tree_sha_for_ref\<close>.\<close>

definition get_tree_sha_for_ref ::
  "'w pylib \<Rightarrow> string \<Rightarrow> string \<Rightarrow> string \<Rightarrow> string \<Rightarrow> 'w io \<Rightarrow> (error + string) \<times> 'w io" where
  "get_tree_sha_for_ref lib api_base repo token ref st =
     (case split_repo repo of
        None \<Rightarrow> (Inl unpack_error, st)
      | Some (owner, name) \<Rightarrow>
          (case http_json lib
                  (rstrip_slash api_base @ ''/repos/'' @ quote lib owner @ ''/'' @ quote lib name
                    @ ''/commits/'' @ quote lib ref)
                  ''GET'' token None default_retries st of
             (Inl e, st1) \<Rightarrow> (Inl e, st1)
           | (Inr (data, headers), st1) \<Rightarrow>
               (case data of
                  JDict d \<Rightarrow>
                    (case dict_get d ''commit'' of
                       JDict commit \<Rightarrow>
                         (case dict_get commit ''tree'' of
                            JDict tree \<Rightarrow> (Inr (strip (str_or_empty lib (dict_get tree ''sha''))), st1)
                          | _ \<Rightarrow> (Inr [], st1))
                     | _ \<Rightarrow> (Inr [], st1))
                | _ \<Rightarrow> (Inr [], st1))))"

text \<open>The directories of the tree that hold a \<open>SKILL.md\<close> under the root prefix.\<close>

definition skill_dirs :: "'w pylib \<Rightarrow> string \<Rightarrow> json list \<Rightarrow> string list" where
  "skill_dirs lib root_prefix tree =
     concat (map (\<lambda>it. case it of
        JDict d \<Rightarrow>
          (let p = str_or_empty lib (dict_get d ''path'') in
           if str_or_empty lib (dict_get d ''type'') \<noteq> ''blob'' then []
           else if \<not> endswith p ''/SKILL.md'' then []
           else if root_prefix \<noteq> [] \<and> \<not> startswith p root_prefix then []
           else if take (length p - 9) p = [] then []
           else [take (length p - 9) p])
      | _ \<Rightarrow> []) tree)"

definition list_source_skills_recursive ::
  "'w pylib \<Rightarrow> string \<Rightarrow> string \<Rightarrow> string \<Rightarrow> string \<Rightarrow> string \<Rightarrow> 'w io
     \<Rightarrow> (error + source_skill list \<times> bool) \<times> 'w io" where
  "list_source_skills_recursive lib api_base repo ref root_path token st =
     (case split_repo repo of
        None \<Rightarrow> (Inl unpack_error, st)
      | Some (owner, name) \<Rightarrow>
          (case get_tree_sha_for_ref lib api_base repo token ref st of
             (Inl e, st1) \<Rightarrow> (Inl e, st1)
           | (Inr tree_sha, st1) \<Rightarrow>
               if tree_sha = [] then
                 (Inl (RuntimeError (''Failed to resolve tree sha for ref: '' @ ref)), st1)
               else
                 (case http_json lib
                         (rstrip_slash api_base @ ''/repos/'' @ quote lib owner @ ''/''
                           @ quote lib name @ ''/git/trees/'' @ quote lib tree_sha @ ''?recursive=1'')
                         ''GET'' token None default_retries st1 of
                    (Inl e, st2) \<Rightarrow> (Inl e, st2)
                  | (Inr (data, headers), st2) \<Rightarrow>
                      (case data of
                         JDict d \<Rightarrow>
                           (case dict_get d ''tree'' of
                              JList tree \<Rightarrow>
                                (let root0 = strip_slash (strip root_path);
                                     root = (if root0 = ''.'' \<or> root0 = ''./'' then [] else root0);
                                     root_prefix = (if root \<noteq> [] then root @ ''/'' else []);
                                     skills = map (\<lambda>dir_path.
                                        \<lparr>sk_name = last (split_on (CHR ''/'') dir_path),
                                         sk_path = dir_path,
                                         sk_html_url = ''https://github.com/'' @ repo @ ''/tree/''
                                            @ ref @ ''/'' @ dir_path\<rparr>)
                                        (sort (remdups (skill_dirs lib root_prefix tree)))
                                 in (Inr (sort_key sk_name skills, truthy (dict_get d ''truncated'')), st2))
                            | _ \<Rightarrow>
                                (Inl (RuntimeError (''Unexpected git tree response (missing tree): ''
                                        @ take 500 (py_str (repr lib) data))), st2))
                       | _ \<Rightarrow>
                           (Inl (RuntimeError (''Unexpected git tree response: ''
                                   @ take 500 (py_str (repr lib) data))), st2)))))"

section \<open>Summarization: \<open>_ai_generate_description\<close>\<close>

text \<open>\<open>re.sub(r"\s+", " ", s)\<close>.\<close>

function collapse_ws :: "string \<Rightarrow> string" where
  "collapse_ws [] = []"
| "collapse_ws (c # cs) =
     (if is_space c then CHR '' '' # collapse_ws (dropWhile is_space cs)
      else c # collapse_ws cs)"
  by pat_completeness auto
termination
  by (relation "measure length") (auto simp add: length_dropWhile_le intro: le_imp_less_Suc)

text \<open>\<open>s.replace("\r", " ").replace("\n", " ")\<close>.\<close>

definition replace_newlines :: "string \<Rightarrow> string" where
  "replace_newlines s = map (\<lambda>c. if c = CHR 0x0D \<or> c = CHR 0x0A then CHR '' '' else c) s"

definition system_prompt :: string where
  "system_prompt =
     ''You write concise marketplace descriptions for software skills. '' @
     ''You must only use the given source content. '' @
     ''Do not invent capabilities not supported by the text.''"

definition indent8 :: string where
  "indent8 = replicate 8 (CHR '' '')"

definition user_prompt_template :: "string \<Rightarrow> string \<Rightarrow> string \<Rightarrow> string \<Rightarrow> string" where
  "user_prompt_template skill_name source_repo_url md_file_name md =
     NL @ indent8 @ ''Write a short Chinese description for an Operit Skill Market listing.'' @ NL
     @ NL
     @ indent8 @ ''Constraints:'' @ NL
     @ indent8 @ ''- Output ONLY the description text, no Markdown headings, no lists.'' @ NL
     @ indent8 @ ''- 1-2 sentences, ideally 30-120 Chinese characters.'' @ NL
     @ indent8 @ ''- Do not include \"##\" or \"**\".'' @ NL
     @ NL
     @ indent8 @ ''Skill folder: '' @ skill_name @ NL
     @ indent8 @ ''Source repo URL: '' @ source_repo_url @ NL
     @ indent8 @ ''Source file: '' @ md_file_name @ NL
     @ NL
     @ indent8 @ ''Source content:'' @ NL
     @ indent8 @ md @ NL
     @ indent8"

text \<open>\<open>_openai_chat_completion\<close>: one request; only \<open>HTTPError\<close> is caught.\<close>

definition openai_chat_completion ::
  "'w pylib \<Rightarrow> string \<Rightarrow> string \<Rightarrow> json \<Rightarrow> 'w io \<Rightarrow> (error + json) \<times> 'w io" where
  "openai_chat_completion lib base_url api_key payload st =
     (case urlopen lib (world st)
             \<lparr>req_url = rstrip_slash base_url @ ''/v1/chat/completions'', req_method = ''POST'',
              req_data = Some payload, req_token = api_key\<rparr> of
        (oc, w') \<Rightarrow>
          (let st1 = st\<lparr>world := w'\<rparr> in
           case oc of
             Response raw hs \<Rightarrow>
               (case loads lib raw of
                  None \<Rightarrow> (Inl (JSONDecodeError (loads_error lib raw)), st1)
                | Some j \<Rightarrow> (Inr j, st1))
           | HTTPError code reason ebody \<Rightarrow>
               (Inl (RuntimeError (''AI request failed: HTTP '' @ str_nat code @ '' '' @ reason @ NL
                       @ (case ebody of None \<Rightarrow> [] | Some b \<Rightarrow> b))), st1)
           | NetError e_str e_repr \<Rightarrow> (Inl (NetErr e_str), st1)))"

text \<open>\<open>v[key]\<close> and \<open>v[0]\<close>: \<open>None\<close> when the subscript raises.\<close>

definition sub_key :: "json \<Rightarrow> string \<Rightarrow> json option" where
  "sub_key v k = (case v of JDict d \<Rightarrow> map_of d k | _ \<Rightarrow> None)"

definition sub_0 :: "json \<Rightarrow> json option" where
  "sub_0 v =
     (case v of
        JList xs \<Rightarrow> (case xs of [] \<Rightarrow> None | x # _ \<Rightarrow> Some x)
      | JStr s \<Rightarrow> (case s of [] \<Rightarrow> None | c # _ \<Rightarrow> Some (JStr [c]))
      | _ \<Rightarrow> None)"

text \<open>\<open>_extract_ai_text\<close>: the final \<open>.strip()\<close> is outside the \<open>try\<close> and raises
  \<open>AttributeError\<close> on a value that is not a string.\<close>

definition extract_ai_text :: "'w pylib \<Rightarrow> json \<Rightarrow> error + string" where
  "extract_ai_text lib resp =
     (case Option.bind (Option.bind (Option.bind (sub_key resp ''choices'') sub_0)
                          (\<lambda>c. sub_key c ''message'')) (\<lambda>m. sub_key m ''content'') of
        None \<Rightarrow> Inl (RuntimeError (''Unexpected AI response: '' @ ai_error_detail lib resp))
      | Some msg \<Rightarrow>
          (case py_or msg (JStr []) of
             JStr s \<Rightarrow> Inr (strip s)
           | w \<Rightarrow> Inl (AttributeError (quoted (type_name w) @ '' object has no attribute '' @ quoted ''strip''))))"

definition ai_generate_description ::
  "'w pylib \<Rightarrow> string \<Rightarrow> string \<Rightarrow> string \<Rightarrow> json \<Rightarrow> string \<Rightarrow> string \<Rightarrow> string \<Rightarrow> string
     \<Rightarrow> 'w io \<Rightarrow> (error + string) \<times> 'w io" where
  "ai_generate_description lib ai_base_url ai_api_key ai_model ai_temperature skill_name
       source_repo_url md_file_name md_content st =
     (let md0 = strip md_content;
          md = (if length md0 > 6000 then rstrip (take 6000 md0) @ NL @ NL @ ''[truncated]'' @ NL
                else md0);
          user_prompt = strip (dedent lib
                           (user_prompt_template skill_name source_repo_url md_file_name md));
          payload = JDict [(''model'', JStr ai_model), (''temperature'', ai_temperature),
                           (''messages'', JList
                              [JDict [(''role'', JStr ''system''), (''content'', JStr system_prompt)],
                               JDict [(''role'', JStr ''user''), (''content'', JStr user_prompt)]])]
      in case openai_chat_completion lib ai_base_url ai_api_key payload st of
           (Inl e, st1) \<Rightarrow> (Inl e, st1)
         | (Inr resp, st1) \<Rightarrow>
             (case extract_ai_text lib resp of
                Inl e \<Rightarrow> (Inl e, st1)
              | Inr out \<Rightarrow> (Inr (collapse_ws (strip (replace_newlines out))), st1)))"

section \<open>Issue creation: \<open>_create_issue\<close> and \<open>_safe_title\<close>\<close>

definition create_issue ::
  "'w pylib \<Rightarrow> string \<Rightarrow> string \<Rightarrow> string \<Rightarrow> string \<Rightarrow> string \<Rightarrow> string list \<Rightarrow> 'w io
     \<Rightarrow> (error + (string \<times> json) list) \<times> 'w io" where
  "create_issue lib api_base repo token title body labels st =
     (case split_repo repo of
        None \<Rightarrow> (Inl unpack_error, st)
      | Some (owner, name) \<Rightarrow>
          (case http_json lib
                  (rstrip_slash api_base @ ''/repos/'' @ quote lib owner @ ''/'' @ quote lib name
                    @ ''/issues'')
                  ''POST'' token
                  (Some (JDict [(''title'', JStr title), (''body'', JStr body),
                                (''labels'', JList (map JStr labels))]))
                  default_retries st of
             (Inl e, st1) \<Rightarrow> (Inl e, st1)
           | (Inr (data, headers), st1) \<Rightarrow>
               (case data of
                  JDict d \<Rightarrow> (Inr d, st1)
                | _ \<Rightarrow> (Inl (RuntimeError (''Unexpected create issue response: ''
                             @ take 500 (py_str (repr lib) data))), st1))))"

definition safe_title :: "string \<Rightarrow> string \<Rightarrow> string" where
  "safe_title base suffix =
     (let t0 = strip base;
          t1 = (if t0 = [] then ''Untitled Skill'' else t0);
          t2 = (if suffix \<noteq> [] \<and> \<not> endswith t1 suffix then t1 @ suffix else t1);
          t3 = collapse_ws (strip (replace_newlines t2))
      in if length t3 > 120 then rstrip (take 120 t3) else t3)"

section \<open>The importer's \<open>main\<close>\<close>

text \<open>
  The parsed command line (the TLS switches only shape the SSL context, and
  \<open>--title-suffix\<close> is ignored by the program), and the values \<open>main\<close> reads from the
  environment before its loop.
\<close>

record args =
  arg_source_repo :: string
  arg_source_ref :: string
  arg_source_root :: string
  arg_recursive :: bool
  arg_allow_duplicate_ids :: bool
  arg_target_repo :: string
  arg_labels :: string
  arg_limit :: int
  arg_only_skill :: string
  arg_skip_existing :: bool
  arg_dry_run :: bool
  arg_print_description :: bool
  arg_print_body :: bool
  arg_verbose :: bool
  arg_version :: string

record config =
  github_token :: string
  github_api_base :: string
  ai_base_url :: string
  ai_api_key :: string
  ai_model :: string
  ai_temperature :: json
  label_list :: "string list"

record counters =
  created :: nat
  skipped :: nat
  failed :: nat

definition print_line :: "string \<Rightarrow> 'w io \<Rightarrow> 'w io" where
  "print_line s st = st\<lparr>printed := printed st @ [s]\<rparr>"

definition print_if :: "bool \<Rightarrow> string \<Rightarrow> 'w io \<Rightarrow> 'w io" where
  "print_if b s st = (if b then print_line s st else st)"

text \<open>\<open>s.lstrip("/")\<close>.\<close>

definition lstrip_slash :: "string \<Rightarrow> string" where
  "lstrip_slash s = dropWhile (\<lambda>x. x = CHR ''/'') s"

definition skill_repo_url :: "args \<Rightarrow> source_skill \<Rightarrow> string" where
  "skill_repo_url a skill =
     ''https://github.com/'' @ arg_source_repo a @ ''/tree/'' @ arg_source_ref a @ ''/''
     @ lstrip_slash (sk_path skill)"

text \<open>The line printed after an issue was created.\<close>

definition ok_line :: "'w pylib \<Rightarrow> (string \<times> json) list \<Rightarrow> string" where
  "ok_line lib issue =
     ''[ok] #'' @ py_str (repr lib) (dict_get issue ''number'') @ '' ''
     @ str_or_empty lib (dict_get issue ''html_url'')"

text \<open>
  The \<open>try\<close> block of the loop body (lines 773 to 829): \<open>Inr ()\<close> when it reaches
  \<open>created += 1\<close>, \<open>Inl e\<close> when it leaves with the exception \<open>e\<close>.
\<close>

definition try_item ::
  "'w pylib \<Rightarrow> (nat \<Rightarrow> string) \<Rightarrow> args \<Rightarrow> config \<Rightarrow> source_skill \<Rightarrow> string \<Rightarrow> string
     \<Rightarrow> string \<Rightarrow> string \<Rightarrow> 'w io \<Rightarrow> (error + unit) \<times> 'w io" where
  "try_item lib lit a cfg skill repo_url title md_file_name md_content st =
     (case ai_generate_description lib (ai_base_url cfg) (ai_api_key cfg) (ai_model cfg)
             (ai_temperature cfg) (sk_name skill) repo_url md_file_name md_content st of
        (Inl e, st1) \<Rightarrow> (Inl e, st1)
      | (Inr description, st1) \<Rightarrow>
          (let st2 = print_if (arg_print_description a)
                       (''[description] '' @ sk_name skill @ '': '' @ description) st1
           in if description = [] then (Inl (RuntimeError ''AI returned empty description''), st2)
              else
                (let body = build_operit_issue_body lib lit description repo_url (arg_version a);
                     st3 = print_if (arg_print_body a)
                             (''[body] '' @ sk_name skill @ '':'' @ NL @ body) st2
                 in if arg_dry_run a
                    then (Inr (), print_line (''[dry-run] create issue: '' @ title @ '' | '' @ repo_url) st3)
                    else
                      (case create_issue lib (github_api_base cfg) (arg_target_repo a)
                              (github_token cfg) title body (label_list cfg) st3 of
                         (Inr issue, st4) \<Rightarrow> (Inr (), print_line (ok_line lib issue) st4)
                       | (Inl e, st4) \<Rightarrow>
                           if contains ''422'' (exc_str e) then
                             (case create_issue lib (github_api_base cfg) (arg_target_repo a)
                                     (github_token cfg) title body [] st4 of
                                (Inr issue, st5) \<Rightarrow> (Inr (), print_line (ok_line lib issue) st5)
                              | (Inl e2, st5) \<Rightarrow> (Inl e2, st5))
                           else (Inl e, st4)))))"

text \<open>
  Lines 759 to 833 of the loop body, for an item that is not skipped: the new counters,
  or the exception that leaves the loop (and \<open>main\<close>).  The call of
  \<open>_pick_skill_markdown\<close> stands before the \<open>try\<close>.
\<close>

definition process_unskipped ::
  "'w pylib \<Rightarrow> (nat \<Rightarrow> string) \<Rightarrow> args \<Rightarrow> config \<Rightarrow> source_skill \<Rightarrow> string
     \<Rightarrow> counters \<Rightarrow> 'w io \<Rightarrow> (error + counters) \<times> 'w io" where
  "process_unskipped lib lit a cfg skill repo_url cnt st0 =
     (case pick_skill_markdown lib (github_api_base cfg) (arg_source_repo a)
             (arg_source_ref a) (sk_path skill) (github_token cfg) st0 of
        (Inl e, st1) \<Rightarrow> (Inl e, st1)
      | (Inr (md_file_name, md_content), st1) \<Rightarrow>
          (let st2 = print_if (arg_verbose a)
                       (''[info] source markdown: ''
                         @ (if md_file_name \<noteq> [] then md_file_name else ''(none)'')) st1;
               title = safe_title (sk_name skill) []
           in case try_item lib lit a cfg skill repo_url title md_file_name md_content st2 of
                (Inr u, st3) \<Rightarrow> (Inr (cnt\<lparr>created := created cnt + 1\<rparr>), st3)
              | (Inl e, st3) \<Rightarrow>
                  (Inr (cnt\<lparr>failed := failed cnt + 1\<rparr>),
                   print_line (''[fail] '' @ sk_name skill @ '': '' @ exc_str e) st3)))"

text \<open>One turn of the loop \<open>for idx, skill in enumerate(skills, start=1)\<close>.\<close>

definition process_skill ::
  "'w pylib \<Rightarrow> (nat \<Rightarrow> string) \<Rightarrow> args \<Rightarrow> config \<Rightarrow> string list \<Rightarrow> nat \<Rightarrow> nat \<Rightarrow> source_skill
     \<Rightarrow> counters \<Rightarrow> 'w io \<Rightarrow> (error + counters) \<times> 'w io" where
  "process_skill lib lit a cfg existing_repo_urls n_total idx skill cnt st =
     (let st0 = print_if (arg_verbose a)
                  (''[info] ('' @ str_nat idx @ ''/'' @ str_nat n_total @ '') processing skill: ''
                    @ sk_name skill) st;
          repo_url = skill_repo_url a skill
      in if arg_skip_existing a \<and> repo_url \<in> set existing_repo_urls
         then (Inr (cnt\<lparr>skipped := skipped cnt + 1\<rparr>),
               print_line (''[skip] '' @ sk_name skill @ '' already exists: '' @ repo_url) st0)
         else process_unskipped lib lit a cfg skill repo_url cnt st0)"

fun process_all ::
  "'w pylib \<Rightarrow> (nat \<Rightarrow> string) \<Rightarrow> args \<Rightarrow> config \<Rightarrow> string list \<Rightarrow> nat \<Rightarrow> nat
     \<Rightarrow> source_skill list \<Rightarrow> counters \<Rightarrow> 'w io \<Rightarrow> (error + counters) \<times> 'w io" where
  "process_all lib lit a cfg existing_repo_urls n_total idx [] cnt st = (Inr cnt, st)"
| "process_all lib lit a cfg existing_repo_urls n_total idx (skill # skills) cnt st =
     (case process_skill lib lit a cfg existing_repo_urls n_total idx skill cnt st of
        (Inl e, st1) \<Rightarrow> (Inl e, st1)
      | (Inr cnt1, st1) \<Rightarrow>
          process_all lib lit a cfg existing_repo_urls n_total (idx + 1) skills cnt1 st1)"

text \<open>\<open>os.environ.get(k, default)\<close>, after \<open>_load_env\<close> has run.\<close>

definition env_get :: "(string \<Rightarrow> string option) \<Rightarrow> string \<Rightarrow> string \<Rightarrow> string" where
  "env_get environ k dflt = (case environ k of None \<Rightarrow> dflt | Some v \<Rightarrow> v)"

definition or_default :: "string \<Rightarrow> string \<Rightarrow> string" where
  "or_default s dflt = (if s = [] then dflt else s)"

text \<open>Lines 644 to 653 and 669: what \<open>main\<close> reads before its checks (the labels are
  computed after the checks, from the arguments alone).\<close>

definition read_config ::
  "'w pylib \<Rightarrow> args \<Rightarrow> (string \<Rightarrow> string option) \<Rightarrow> config" where
  "read_config lib a environ =
     \<lparr>github_token = strip (env_get environ ''GITHUB_TOKEN'' []),
      github_api_base = or_default (strip (env_get environ ''GITHUB_API_URL'' ''https://api.github.com''))
                          ''https://api.github.com'',
      ai_base_url = strip (env_get environ ''AI_BASE_URL'' []),
      ai_api_key = strip (env_get environ ''AI_API_KEY'' []),
      ai_model = or_default (strip (env_get environ ''AI_MODEL'' [])) ''gpt-4o-mini'',
      ai_temperature =
        (let t = env_get environ ''AI_TEMPERATURE'' ''0.2'' in
         if t = [] then float_0_2 lib
         else (case float_of_str lib t of None \<Rightarrow> float_0_2 lib | Some f \<Rightarrow> f)),
      label_list = filter (\<lambda>x. x \<noteq> []) (map strip (split_on (CHR '','') (arg_labels a)))\<rparr>"

definition msg_missing_ai :: string where
  "msg_missing_ai = ''Missing AI_BASE_URL/AI_API_KEY. Fill tools/github/.env (gitignored) or set env vars.''"

definition msg_missing_token :: string where
  "msg_missing_token = ''Missing GITHUB_TOKEN. Creating issues requires a GitHub token.''"

definition msg_invalid_target :: string where
  "msg_invalid_target = ''Invalid --target-repo. Expect owner/name.''"

text \<open>Lines 686 to 690: the repository URLs found in the bodies of the existing issues.\<close>

definition existing_urls :: "'w pylib \<Rightarrow> json list \<Rightarrow> string list" where
  "existing_urls lib issues =
     concat (map (\<lambda>it. case it of
        JDict d \<Rightarrow>
          (let repo_url = extract_skill_metadata_repo_url lib (str_or_empty lib (dict_get d ''body''))
           in if repo_url \<noteq> [] then [repo_url] else [])
      | _ \<Rightarrow> []) issues)"

text \<open>Lines 692 to 710: the discovery, by one of the two strategies.\<close>

definition discover ::
  "'w pylib \<Rightarrow> args \<Rightarrow> config \<Rightarrow> 'w io \<Rightarrow> (error + source_skill list \<times> bool) \<times> 'w io" where
  "discover lib a cfg st =
     (if arg_recursive a
      then list_source_skills_recursive lib (github_api_base cfg) (arg_source_repo a)
             (arg_source_ref a) (arg_source_root a) (github_token cfg) st
      else (case list_source_skills lib (github_api_base cfg) (arg_source_repo a)
                   (arg_source_ref a) (arg_source_root a) (github_token cfg) st of
              (Inl e, st1) \<Rightarrow> (Inl e, st1)
            | (Inr skills, st1) \<Rightarrow> (Inr (skills, False), st1)))"

text \<open>Lines 719 to 722: the names counted in a dict, and the sorted names counted more
  than once.\<close>

definition name_counts :: "source_skill list \<Rightarrow> (string \<times> nat) list" where
  "name_counts skills =
     foldl (\<lambda>d s. dict_set d (sk_name s)
                     ((case map_of d (sk_name s) of None \<Rightarrow> 0 | Some n \<Rightarrow> n) + 1)) [] skills"

definition duplicate_names :: "source_skill list \<Rightarrow> string list" where
  "duplicate_names skills = sort (map fst (filter (\<lambda>(k, v). v > 1) (name_counts skills)))"

definition dup_message :: "string list \<Rightarrow> string" where
  "dup_message dups =
     ''Duplicate skill IDs found (same folder name under different paths). '' @
     ''Since issue title is the ID, this would create ambiguous entries. '' @
     ''Use --allow-duplicate-ids to proceed anyway, or narrow --source-root.'' @ NL @
     ''Duplicates: '' @ join '', '' (take 50 dups) @ (if length dups > 50 then '' ...'' else [])"

definition truncated_warning :: string where
  "truncated_warning =
     ''[warn] Git tree API returned truncated results; some skills may be missing. '' @
     ''Try narrowing --source-root to a smaller subdirectory.''"

definition done_line :: "counters \<Rightarrow> string" where
  "done_line cnt =
     ''Done. created='' @ str_nat (created cnt) @ '' skipped='' @ str_nat (skipped cnt)
     @ '' failed='' @ str_nat (failed cnt)"

text \<open>Lines 734 to 836: the filters, the loop and the exit status.\<close>

definition run_skills ::
  "'w pylib \<Rightarrow> (nat \<Rightarrow> string) \<Rightarrow> args \<Rightarrow> config \<Rightarrow> string list \<Rightarrow> source_skill list \<Rightarrow> 'w io
     \<Rightarrow> (error + nat) \<times> 'w io" where
  "run_skills lib lit a cfg existing_repo_urls skills st =
     (let only = strip (arg_only_skill a);
          skills1 = (if only \<noteq> [] then filter (\<lambda>s. sk_name s = only) skills else skills)
      in if only \<noteq> [] \<and> skills1 = [] then
           (Inr 2, print_line (''No such skill folder under '' @ arg_source_repo a @ ''/''
                      @ arg_source_root a @ ''@'' @ arg_source_ref a @ '': '' @ only) st)
         else
           (let skills2 = (if arg_limit a \<noteq> 0 \<and> arg_limit a > 0
                           then take (nat (arg_limit a)) skills1 else skills1)
            in case process_all lib lit a cfg existing_repo_urls (length skills2) 1 skills2
                      \<lparr>created = 0, skipped = 0, failed = 0\<rparr> st of
                 (Inl e, st1) \<Rightarrow> (Inl e, st1)
               | (Inr cnt, st1) \<Rightarrow>
                   (Inr (if failed cnt = 0 then 0 else 1), print_line (done_line cnt) st1)))"

text \<open>Lines 712 to 732, then the rest: the warning, the duplicate check.\<close>

definition after_discovery ::
  "'w pylib \<Rightarrow> (nat \<Rightarrow> string) \<Rightarrow> args \<Rightarrow> config \<Rightarrow> string list \<Rightarrow> source_skill list \<Rightarrow> bool
     \<Rightarrow> 'w io \<Rightarrow> (error + nat) \<times> 'w io" where
  "after_discovery lib lit a cfg existing_repo_urls skills truncated_tree st =
     (let st1 = print_if (arg_verbose a \<and> arg_recursive a \<and> truncated_tree) truncated_warning st
      in if \<not> arg_allow_duplicate_ids a \<and> duplicate_names skills \<noteq> []
         then (Inr 2, print_line (dup_message (duplicate_names skills)) st1)
         else run_skills lib lit a cfg existing_repo_urls skills st1)"

text \<open>
  Lines 672 to 690: the existing issues of the target repository, listed when
  \<open>--skip-existing\<close> is set.  Then \<open>main\<close> from line 663 on, after the two checks of
  the credentials: its exit status
  (\<open>Inr\<close>) or the exception it dies of (\<open>Inl\<close>, which the interpreter turns into a
  traceback and the exit status 1); \<open>None\<close> when the listing of the existing issues
  never ends.
\<close>

definition existing_issues ::
  "'w pylib \<Rightarrow> args \<Rightarrow> config \<Rightarrow> 'w io \<Rightarrow> ((error + json list) \<times> 'w io) option" where
  "existing_issues lib a cfg st =
     (let st1 = print_if (arg_verbose a) (''[info] target repo: '' @ arg_target_repo a) st;
          st2 = print_if (arg_verbose a)
                  (''[info] labels: '' @ or_default (join '','' (label_list cfg)) ''(none)'') st1
      in if arg_skip_existing a
         then iter_issues lib (github_api_base cfg) (arg_target_repo a) (github_token cfg)
                ''all'' [] st2
         else Some (Inr [], st2))"

definition main_checked ::
  "'w pylib \<Rightarrow> (nat \<Rightarrow> string) \<Rightarrow> args \<Rightarrow> config \<Rightarrow> 'w io \<Rightarrow> ((error + nat) \<times> 'w io) option" where
  "main_checked lib lit a cfg st =
     (if arg_target_repo a = [] \<or> CHR ''/'' \<notin> set (arg_target_repo a)
        then Some (Inr 2, print_line msg_invalid_target st)
      else
        (case existing_issues lib a cfg st of
           None \<Rightarrow> None
         | Some (Inl e, st3) \<Rightarrow> Some (Inl e, st3)
         | Some (Inr issues, st3) \<Rightarrow>
             (case discover lib a cfg st3 of
                (Inl e, st4) \<Rightarrow> Some (Inl e, st4)
              | (Inr (skills, truncated_tree), st4) \<Rightarrow>
                  Some (after_discovery lib lit a cfg (existing_urls lib issues) skills
                          truncated_tree st4))))"

text \<open>\<open>main\<close>, from line 644 on (the environment is the one \<open>_load_env\<close> leaves).\<close>

definition main ::
  "'w pylib \<Rightarrow> (nat \<Rightarrow> string) \<Rightarrow> args \<Rightarrow> (string \<Rightarrow> string option) \<Rightarrow> 'w io
     \<Rightarrow> ((error + nat) \<times> 'w io) option" where
  "main lib lit a environ st =
     (let cfg = read_config lib a environ in
      if ai_base_url cfg = [] \<or> ai_api_key cfg = [] then Some (Inr 2, print_line msg_missing_ai st)
      else if github_token cfg = [] \<and> \<not> arg_dry_run a
        then Some (Inr 2, print_line msg_missing_token st)
      else main_checked lib lit a cfg st)"

text \<open>The default command line, and an environment with the AI settings only.\<close>

definition default_args :: args where
  "default_args =
     \<lparr>arg_source_repo = ''anthropics/skills'', arg_source_ref = ''main'',
      arg_source_root = ''skills'', arg_recursive = False, arg_allow_duplicate_ids = False,
      arg_target_repo = ''AAswordman/OperitSkillMarket'', arg_labels = ''skill-plugin'',
      arg_limit = 0, arg_only_skill = [], arg_skip_existing = False, arg_dry_run = False,
      arg_print_description = False, arg_print_body = False, arg_verbose = False,
      arg_version = ''v1''\<rparr>"

definition ai_environ :: "string \<Rightarrow> string option" where
  "ai_environ = [''AI_BASE_URL'' \<mapsto> ''https://ai.example'', ''AI_API_KEY'' \<mapsto> ''k'']"

section \<open>A JSON reader for the examples\<close>

text \<open>
  \<open>json.loads\<close> on texts whose characters are below 256: objects, arrays, strings
  (with the escapes, \<open>\uXXXX\<close> below 256), numbers and the literals;
  a later duplicate key replaces the earlier value.  It is used to run the examples;
  the general statements take \<open>json.loads\<close> as the parameter \<open>loads\<close>.
\<close>

definition json_ws :: "char \<Rightarrow> bool" where
  "json_ws c = (c = CHR '' '' \<or> c = CHR 0x09 \<or> c = CHR 0x0A \<or> c = CHR 0x0D)"

definition skip_ws :: "string \<Rightarrow> string" where
  "skip_ws s = dropWhile json_ws s"

definition hex_val :: "char \<Rightarrow> nat option" where
  "hex_val c = (let n = (of_char c :: nat) in
     if 48 \<le> n \<and> n \<le> 57 then Some (n - 48)
     else if 97 \<le> n \<and> n \<le> 102 then Some (n - 87)
     else if 65 \<le> n \<and> n \<le> 70 then Some (n - 55)
     else None)"

definition hex4 :: "string \<Rightarrow> nat option" where
  "hex4 s = (case map hex_val s of
       [Some a, Some b, Some c, Some d] \<Rightarrow> Some (((a * 16 + b) * 16 + c) * 16 + d)
     | _ \<Rightarrow> None)"

definition unescape :: "char \<Rightarrow> char option" where
  "unescape e =
     (if e = CHR 0x22 then Some (CHR 0x22)
      else if e = CHR 0x5C then Some (CHR 0x5C)
      else if e = CHR ''/'' then Some (CHR ''/'')
      else if e = CHR ''b'' then Some (CHR 0x08)
      else if e = CHR ''f'' then Some (CHR 0x0C)
      else if e = CHR ''n'' then Some (CHR 0x0A)
      else if e = CHR ''r'' then Some (CHR 0x0D)
      else if e = CHR ''t'' then Some (CHR 0x09)
      else None)"

text \<open>The rest of a string literal, after its opening quote.\<close>

function parse_str :: "string \<Rightarrow> (string \<times> string) option" where
  "parse_str [] = None"
| "parse_str (c # cs) =
     (if c = CHR 0x22 then Some ([], cs)
      else if c = CHR 0x5C then
        (case cs of
           [] \<Rightarrow> None
         | e # cs' \<Rightarrow>
             if e = CHR ''u'' then
               (case hex4 (take 4 cs') of
                  None \<Rightarrow> None
                | Some n \<Rightarrow>
                    if n < 256 then
                      (case parse_str (drop 4 cs') of
                         None \<Rightarrow> None
                       | Some (t, r) \<Rightarrow> Some (char_of n # t, r))
                    else None)
             else
               (case unescape e of
                  None \<Rightarrow> None
                | Some ch \<Rightarrow>
                    (case parse_str cs' of
                       None \<Rightarrow> None
                     | Some (t, r) \<Rightarrow> Some (ch # t, r))))
      else if (of_char c :: nat) < 32 then None
      else (case parse_str cs of
              None \<Rightarrow> None
            | Some (t, r) \<Rightarrow> Some (c # t, r)))"
  by pat_completeness auto
termination
  by (relation "measure length") auto

definition is_digit :: "char \<Rightarrow> bool" where
  "is_digit c = (48 \<le> (of_char c :: nat) \<and> (of_char c :: nat) \<le> 57)"

definition digits_val :: "string \<Rightarrow> nat" where
  "digits_val ds = foldl (\<lambda>a c. a * 10 + ((of_char c :: nat) - 48)) 0 ds"

text \<open>
  A number \<open>(-?(?:0|[1-9]\d*))(\.\d+)?([eE][-+]?\d+)?\<close>: an integer when it has
  neither fraction nor exponent, else a float, kept as its text; the flag is computed
  from the digits, which is right as long as the number does not underflow to zero.
\<close>

definition parse_number :: "string \<Rightarrow> (json \<times> string) option" where
  "parse_number s =
     (let neg = (s \<noteq> [] \<and> hd s = CHR ''-'');
          s1 = (if neg then tl s else s);
          ds = (if s1 \<noteq> [] \<and> hd s1 = CHR ''0'' then ''0'' else takeWhile is_digit s1);
          r = drop (length ds) s1;
          fd = (if r \<noteq> [] \<and> hd r = CHR ''.'' then takeWhile is_digit (tl r) else []);
          r1 = (if fd \<noteq> [] then drop (Suc (length fd)) r else r);
          has_e = (r1 \<noteq> [] \<and> (hd r1 = CHR ''e'' \<or> hd r1 = CHR ''E''));
          sgn = (if has_e \<and> tl r1 \<noteq> [] \<and> (hd (tl r1) = CHR ''+'' \<or> hd (tl r1) = CHR ''-'')
                 then [hd (tl r1)] else []);
          ed = (if has_e then takeWhile is_digit (drop (Suc (length sgn)) r1) else []);
          r2 = (if ed \<noteq> [] then drop (Suc (length sgn) + length ed) r1 else r1)
      in if ds = [] then None
         else if fd = [] \<and> ed = []
           then Some (JInt (if neg then - int (digits_val ds) else int (digits_val ds)), r)
         else Some (JFloat (\<exists>c \<in> set (ds @ fd). c \<noteq> CHR ''0'') (take (length s - length r2) s), r2))"

fun parse_value :: "nat \<Rightarrow> string \<Rightarrow> (json \<times> string) option"
  and parse_elems :: "nat \<Rightarrow> json list \<Rightarrow> string \<Rightarrow> (json \<times> string) option"
  and parse_members :: "nat \<Rightarrow> (string \<times> json) list \<Rightarrow> string \<Rightarrow> (json \<times> string) option"
where
  "parse_value 0 s = None"
| "parse_value (Suc n) s =
     (case s of
        [] \<Rightarrow> None
      | c # cs \<Rightarrow>
          if c = CHR 0x22 then
            (case parse_str cs of None \<Rightarrow> None | Some (t, r) \<Rightarrow> Some (JStr t, r))
          else if c = CHR ''{'' then
            (case skip_ws cs of
               [] \<Rightarrow> None
             | d # ds \<Rightarrow> if d = CHR ''}'' then Some (JDict [], ds) else parse_members n [] (d # ds))
          else if c = CHR ''['' then
            (case skip_ws cs of
               [] \<Rightarrow> None
             | d # ds \<Rightarrow> if d = CHR '']'' then Some (JList [], ds) else parse_elems n [] (d # ds))
          else if take 4 s = ''null'' then Some (JNull, drop 4 s)
          else if take 4 s = ''true'' then Some (JBool True, drop 4 s)
          else if take 5 s = ''false'' then Some (JBool False, drop 5 s)
          else (case parse_number s of
                  Some r \<Rightarrow> Some r
                | None \<Rightarrow>
                    if take 3 s = ''NaN'' then Some (JFloat True ''nan'', drop 3 s)
                    else if take 8 s = ''Infinity'' then Some (JFloat True ''inf'', drop 8 s)
                    else if take 9 s = ''-Infinity'' then Some (JFloat True ''-inf'', drop 9 s)
                    else None))"
| "parse_elems 0 acc s = None"
| "parse_elems (Suc n) acc s =
     (case parse_value n s of
        None \<Rightarrow> None
      | Some (v, r) \<Rightarrow>
          (case skip_ws r of
             [] \<Rightarrow> None
           | d # ds \<Rightarrow>
               if d = CHR '']'' then Some (JList (acc @ [v]), ds)
               else if d = CHR '','' then parse_elems n (acc @ [v]) (skip_ws ds)
               else None))"
| "parse_members 0 acc s = None"
| "parse_members (Suc n) acc s =
     (case s of
        [] \<Rightarrow> None
      | q # s1 \<Rightarrow>
          if q \<noteq> CHR 0x22 then None
          else
            (case parse_str s1 of
               None \<Rightarrow> None
             | Some (k, r) \<Rightarrow>
                 (case skip_ws r of
                    [] \<Rightarrow> None
                  | col # r1 \<Rightarrow>
                      if col \<noteq> CHR '':'' then None
                      else
                        (case parse_value n (skip_ws r1) of
                           None \<Rightarrow> None
                         | Some (v, r2) \<Rightarrow>
                             (case skip_ws r2 of
                                [] \<Rightarrow> None
                              | d # ds \<Rightarrow>
                                  if d = CHR ''}'' then Some (JDict (dict_set acc k v), ds)
                                  else if d = CHR '','' then parse_members n (dict_set acc k v) (skip_ws ds)
                                  else None)))))"

definition json_loads :: "string \<Rightarrow> json option" where
  "json_loads s =
     (case parse_value (Suc (length s)) (skip_ws s) of
        None \<Rightarrow> None
      | Some (v, r) \<Rightarrow> if skip_ws r = [] then Some v else None)"

text \<open>
  A scripted world for the examples: the outcomes of the coming \<open>urlopen\<close> calls, in
  order; once the script is used up the network is down.
\<close>

definition script_urlopen :: "outcome list \<Rightarrow> request \<Rightarrow> outcome \<times> outcome list" where
  "script_urlopen w req = (case w of [] \<Rightarrow> (NetError ''<urlopen error down>'' ''URLError('down')'', []) | oc # ocs \<Rightarrow> (oc, ocs))"

definition script_lib :: "outcome list pylib" where
  "script_lib = \<lparr>urlopen = script_urlopen, loads = json_loads,
     loads_error = (\<lambda>s. ''Expecting value: line 1 column 1 (char 0)''), repr = (\<lambda>v. ''?''),
     quote = (\<lambda>s. s), quote_plus = (\<lambda>s. s), now_str = ''2024-01-01 00:00:00'',
     dedent = (\<lambda>s. s), float_of_str = (\<lambda>s. None), float_0_2 = JFloat True ''0.2'',
     ai_error_detail = (\<lambda>v. ''?'')\<rparr>"

text \<open>Two pages of an issue listing, the first linking to the second.\<close>

definition example_link :: string where
  "example_link = ''<https://api.github.com/p2>; rel=\"next\", <https://api.github.com/p9>; rel=\"last\"''"

definition example_page1 :: string where
  "example_page1 = ''[{\"number\": 1}, {\"number\": 2, \"pull_request\": {}}, 5]''"

definition example_page2 :: string where
  "example_page2 = ''[{\"number\": 3}]''"

definition example_pages :: "outcome list" where
  "example_pages = [Response example_page1 [(''Link'', example_link)], Response example_page2 []]"

definition example_item :: "int \<Rightarrow> issue_item" where
  "example_item n = \<lparr>item_number = n, item_title = [], item_html_url = [], item_state = [],
     item_created_at = [], item_updated_at = [], item_labels = [], item_assignees = [],
     item_comments = 0\<rparr>"

text \<open>Issue bodies with the legacy key, with an empty URL and with malformed JSON.\<close>

definition legacy_body :: string where
  "legacy_body = ''<!-- operit-skill-json: {\"repoUrl\":\"https://github.com/o/r\"} -->''"

definition empty_url_body :: string where
  "empty_url_body = ''<!-- operit-skill-json: {\"repositoryUrl\":\"\"} -->''"

definition malformed_body :: string where
  "malformed_body = ''<!-- operit-skill-json: {oops} -->''"

text \<open>A placeholder for the template literals in the examples.\<close>

definition no_lit :: "nat \<Rightarrow> string" where
  "no_lit n = ''#''"

text \<open>The report of C6 as the claim words it: the whole sorted list of names.\<close>

definition dup_message_all :: "string list \<Rightarrow> string" where
  "dup_message_all dups =
     ''Duplicate skill IDs found (same folder name under different paths). '' @
     ''Since issue title is the ID, this would create ambiguous entries. '' @
     ''Use --allow-duplicate-ids to proceed anyway, or narrow --source-root.'' @ NL @
     ''Duplicates: '' @ join '', '' dups"

text \<open>Fifty-one two-letter names, each under two paths.\<close>

definition named_skill :: "string \<Rightarrow> string \<Rightarrow> source_skill" where
  "named_skill dir n = \<lparr>sk_name = n, sk_path = dir @ ''/'' @ n, sk_html_url = []\<rparr>"

definition two_letter_names :: "string list" where
  "two_letter_names =
     [''aa'', ''ab'', ''ac'', ''ad'', ''ae'', ''af'', ''ag'', ''ah'', ''ai'', ''aj'',
      ''ba'', ''bb'', ''bc'', ''bd'', ''be'', ''bf'', ''bg'', ''bh'', ''bi'', ''bj'',
      ''ca'', ''cb'', ''cc'', ''cd'', ''ce'', ''cf'', ''cg'', ''ch'', ''ci'', ''cj'',
      ''da'', ''db'', ''dc'', ''dd'', ''de'', ''df'', ''dg'', ''dh'', ''di'', ''dj'',
      ''ea'', ''eb'', ''ec'', ''ed'', ''ee'', ''ef'', ''eg'', ''eh'', ''ei'', ''ej'',
      ''fa'']"

definition many_duplicates :: "source_skill list" where
  "many_duplicates =
     map (named_skill ''x'') two_letter_names @ map (named_skill ''y'') two_letter_names"

definition example_config :: config where
  "example_config =
     \<lparr>github_token = ''t'', github_api_base = ''https://api.github.com'',
      ai_base_url = ''https://ai.example'', ai_api_key = ''k'', ai_model = ''gpt-4o-mini'',
      ai_temperature = JFloat True ''0.2'', label_list = [''skill-plugin'']\<rparr>"

text \<open>An environment with all credentials, and a repository tree in which two
  directories named \<open>a\<close> hold a \<open>SKILL.md\<close>.\<close>

definition full_environ :: "string \<Rightarrow> string option" where
  "full_environ = [''AI_BASE_URL'' \<mapsto> ''https://ai.example'', ''AI_API_KEY'' \<mapsto> ''k'',
                   ''GITHUB_TOKEN'' \<mapsto> ''t'']"

definition commit_response :: outcome where
  "commit_response = Response ''{\"commit\": {\"tree\": {\"sha\": \"abc\"}}}'' []"

definition tree_response :: outcome where
  "tree_response = Response
     (''{\"truncated\": false, \"tree\": ['' @
      ''{\"type\": \"blob\", \"path\": \"skills/x/a/SKILL.md\"}, '' @
      ''{\"type\": \"blob\", \"path\": \"skills/b/SKILL.md\"}, '' @
      ''{\"type\": \"blob\", \"path\": \"skills/y/a/SKILL.md\"}]}'') []"

definition tree_skills :: "source_skill list" where
  "tree_skills =
     [\<lparr>sk_name = ''a'', sk_path = ''skills/x/a'',
       sk_html_url = ''https://github.com/anthropics/skills/tree/main/skills/x/a''\<rparr>,
      \<lparr>sk_name = ''a'', sk_path = ''skills/y/a'',
       sk_html_url = ''https://github.com/anthropics/skills/tree/main/skills/y/a''\<rparr>,
      \<lparr>sk_name = ''b'', sk_path = ''skills/b'',
       sk_html_url = ''https://github.com/anthropics/skills/tree/main/skills/b''\<rparr>]"

text \<open>The answers of a dry run for one item (the directory listing, the download and
  the chat completion), and the listing of a source root with two directories.\<close>

definition item_responses :: "outcome list" where
  "item_responses =
     [Response ''[{\"type\": \"file\", \"name\": \"SKILL.md\", \"download_url\": \"https://raw.example/SKILL.md\"}]'' [],
      Response ''# A skill'' [],
      Response ''{\"choices\": [{\"message\": {\"content\": \"Reads spreadsheets.\"}}]}'' []]"

definition root_listing :: outcome where
  "root_listing = Response
     (''[{\"type\": \"dir\", \"name\": \"pdf\", \"path\": \"skills/pdf\"}, '' @
      ''{\"type\": \"dir\", \"name\": \"xlsx\", \"path\": \"skills/xlsx\"}]'') []"

text \<open>A link header whose next URL holds a comma.\<close>

definition comma_link :: string where
  "comma_link = ''<https://api.github.com/repositories/1/issues?labels=a,b&page=2>; rel=\"next\"''"

definition no_int_lib :: int_lib where
  "no_int_lib = \<lparr>int_of_str = (\<lambda>s. Inl (''invalid literal for int() with base 10: '' @ quoted s)),
                  int_of_float = (\<lambda>s. Inl ''cannot convert float to integer'')\<rparr>"

text \<open>A page of existing issues: one issue, whose body embeds the metadata of the skill
  \<open>pdf\<close>.\<close>

definition pdf_url :: string where
  "pdf_url = ''https://github.com/anthropics/skills/tree/main/skills/pdf''"

definition existing_issue_page :: outcome where
  "existing_issue_page = Response
     (''[{\"number\": 7, \"body\": ''
      @ dumps_str (''<!-- operit-skill-json: '' @ dumps_metadata pdf_url ''v1'' @ '' -->'')
      @ ''}]'') []"

definition zero_counters :: counters where
  "zero_counters = \<lparr>created = 0, skipped = 0, failed = 0\<rparr>"

section \<open>Retry and backoff in \<open>_http_json\<close>\<close>

lemma http_loop_retry:
  assumes "urlopen lib (world st) req = (HTTPError code reason ebody, w')"
    and "retryable code" and "n < retries" and "n = attempt + 1"
  shows "http_loop lib req retries attempt le st =
     http_loop lib req retries n le (st\<lparr>world := w', slept := slept st @ [2 ^ attempt]\<rparr>)"
  using assms by (subst http_loop.simps) (simp add: Let_def)

lemma http_loop_ok:
  assumes "attempt < retries" and "urlopen lib (world st) req = (Response text hs, w')"
    and "strip text \<noteq> []" and "loads lib text = Some j"
  shows "http_loop lib req retries attempt le st = (Inr (j, lower_headers hs), st\<lparr>world := w'\<rparr>)"
  using assms by (subst http_loop.simps) (simp add: Let_def)

lemma http_loop_raise:
  assumes "attempt < retries" and "urlopen lib (world st) req = (HTTPError code reason ebody, w')"
    and "\<not> (retryable code \<and> attempt + 1 < retries)"
  shows "http_loop lib req retries attempt le st =
     (Inl (RuntimeError (api_error_msg code reason
        (let body0 = (case ebody of None \<Rightarrow> [] | Some b \<Rightarrow> b)
         in if code = 403 \<and> contains pat_marker body0 then body0 @ hint else body0))),
      st\<lparr>world := w'\<rparr>)"
  using assms by (subst http_loop.simps) (auto simp add: Let_def)

text \<open>
  C1.  When the request is answered with status 503 on the first three attempts and
  with a successful response on the fourth, \<open>_http_json\<close> with the default budget of
  five attempts returns the parsed body of the fourth response (with its lowered
  headers), after sleeping 1, 2 and 4 seconds between the attempts: each delay is
  double the one before.
\<close>

theorem http_json_503_then_200:
  assumes req: "req = \<lparr>req_url = url, req_method = upper method,
        req_data = payload, req_token = token\<rparr>"
  and a1: "urlopen lib (world st) req = (HTTPError 503 r1 b1, w1)"
  and a2: "urlopen lib w1 req = (HTTPError 503 r2 b2, w2)"
  and a3: "urlopen lib w2 req = (HTTPError 503 r3 b3, w3)"
  and a4: "urlopen lib w3 req = (Response text hs, w4)"
  and nonblank: "strip text \<noteq> []"
  and parsed: "loads lib text = Some j"
  shows "http_json lib url method token payload default_retries st =
           (Inr (j, lower_headers hs), st\<lparr>world := w4, slept := slept st @ [1, 2, 4]\<rparr>)"
proof -
  have r: "retryable 503" by (simp add: retryable_def)
  define st1 where "st1 = st\<lparr>world := w1, slept := slept st @ [2 ^ 0]\<rparr>"
  define st2 where "st2 = st1\<lparr>world := w2, slept := slept st1 @ [2 ^ 1]\<rparr>"
  define st3 where "st3 = st2\<lparr>world := w3, slept := slept st2 @ [2 ^ 2]\<rparr>"
  have u1: "urlopen lib (world st1) req = (HTTPError 503 r2 b2, w2)"
    by (simp add: st1_def a2)
  have u2: "urlopen lib (world st2) req = (HTTPError 503 r3 b3, w3)"
    by (simp add: st2_def a3)
  have u3: "urlopen lib (world st3) req = (Response text hs, w4)"
    by (simp add: st3_def a4)
  have "http_loop lib req 5 0 None st = http_loop lib req 5 1 None st1"
    unfolding st1_def by (rule http_loop_retry [OF a1 r]) simp_all
  also have "\<dots> = http_loop lib req 5 2 None st2"
    unfolding st2_def by (rule http_loop_retry [OF u1 r]) simp_all
  also have "\<dots> = http_loop lib req 5 3 None st3"
    unfolding st3_def by (rule http_loop_retry [OF u2 r]) simp_all
  also have "\<dots> = (Inr (j, lower_headers hs), st3\<lparr>world := w4\<rparr>)"
    by (rule http_loop_ok [OF _ u3 nonblank parsed]) simp
  finally show ?thesis
    by (simp add: http_json_def default_retries_def req st3_def st2_def st1_def)
qed

theorem http_json_503_then_200_witness:
  "http_json script_lib ''https://api.github.com/x'' ''get'' ''t'' None default_retries
     \<lparr>world = [HTTPError 503 ''Service Unavailable'' None,
                HTTPError 503 ''Service Unavailable'' (Some ''busy''),
                HTTPError 503 ''Service Unavailable'' None,
                Response ''{\"n\": 7}'' [(''Link'', ''x'')]],
      slept = [], printed = []\<rparr>
   = (Inr (JDict [(''n'', JInt 7)], [(''link'', ''x'')]),
      \<lparr>world = [], slept = [1, 2, 4], printed = []\<rparr>)"
proof -
  have t: "strip ''{\"n\": 7}'' \<noteq> []"
    by (simp add: strip_def lstrip_def rstrip_def is_space_def)
  have p: "loads script_lib ''{\"n\": 7}'' = Some (JDict [(''n'', JInt 7)])"
    unfolding script_lib_def by simp code_simp
  have h: "lower_headers [(''Link'', ''x'')] = [(''link'', ''x'')]"
    by code_simp
  show ?thesis
    using http_json_503_then_200 [OF refl, where lib = script_lib and st =
        "\<lparr>world = [HTTPError 503 ''Service Unavailable'' None,
                HTTPError 503 ''Service Unavailable'' (Some ''busy''),
                HTTPError 503 ''Service Unavailable'' None,
                Response ''{\"n\": 7}'' [(''Link'', ''x'')]],
          slept = [], printed = []\<rparr>", OF _ _ _ _ t p]
    by (simp add: script_lib_def script_urlopen_def h)
qed

section \<open>Error statuses in \<open>_http_json\<close>\<close>

text \<open>
  C4, as stated, fails: a 403 whose body carries the personal-access-token text is
  retried like every other 403.  Here the first attempt gets such a 403; the call sleeps
  one second, tries again and returns the second answer.
\<close>

theorem http_json_403_pat_counterexample:
  "http_json script_lib ''https://api.github.com/repos/o/r/issues'' ''POST'' ''t'' None default_retries
     \<lparr>world = [HTTPError 403 ''Forbidden'' (Some ''Resource not accessible by personal access token''),
                Response ''{}'' []],
      slept = [], printed = []\<rparr>
   = (Inr (JDict [], []), \<lparr>world = [], slept = [1], printed = []\<rparr>)"
proof -
  have t: "strip ''{}'' \<noteq> []"
    by (simp add: strip_def lstrip_def rstrip_def is_space_def)
  have p: "json_loads ''{}'' = Some (JDict [])"
    by code_simp
  have c: "contains pat_marker ''Resource not accessible by personal access token''"
    by (simp add: pat_marker_def)
  show ?thesis
    by (simp add: http_json_def default_retries_def http_loop.simps script_lib_def
          script_urlopen_def retryable_def t p c lower_headers_def)
qed

text \<open>
  C4, amended.  An HTTP error whose status is outside 403, 429, 500, 502, 503 and 504
  makes \<open>_http_json\<close> fail at that attempt, with no further attempt and no sleep, and
  the error carries the status code, the reason phrase and the response body.  A 403
  whose body contains the personal-access-token text is retryable like every 403: while
  attempts remain it is followed by a backoff sleep and the next attempt, and at the
  last attempt the error raised carries the body followed by the guidance.
\<close>

theorem http_error_not_retried:
  assumes "attempt < retries"
    and "urlopen lib (world st) req = (HTTPError code reason ebody, w')"
    and "body = (case ebody of None \<Rightarrow> [] | Some b \<Rightarrow> b)"
  shows "(\<not> retryable code \<longrightarrow>
            http_loop lib req retries attempt le st =
              (Inl (RuntimeError (api_error_msg code reason body)), st\<lparr>world := w'\<rparr>))
       \<and> (code = 403 \<and> contains pat_marker body \<longrightarrow>
            http_loop lib req retries attempt le st =
              (if attempt + 1 < retries
               then http_loop lib req retries (attempt + 1) le
                      (st\<lparr>world := w', slept := slept st @ [2 ^ attempt]\<rparr>)
               else (Inl (RuntimeError (api_error_msg code reason (body @ hint))), st\<lparr>world := w'\<rparr>)))"
  using assms
  by (subst (1 2) http_loop.simps) (auto simp add: Let_def retryable_def)

theorem http_error_not_retried_witness:
  "http_json script_lib ''https://api.github.com/x'' ''GET'' ''t'' None default_retries
     \<lparr>world = [HTTPError 404 ''Not Found'' (Some ''{}'')], slept = [], printed = []\<rparr>
   = (Inl (RuntimeError (''GitHub API error: HTTP 404 Not Found'' @ NL @ ''{}'')),
      \<lparr>world = [], slept = [], printed = []\<rparr>)
   \<and> http_json script_lib ''https://api.github.com/x'' ''GET'' ''t'' None 1
     \<lparr>world = [HTTPError 403 ''Forbidden'' (Some pat_marker)], slept = [], printed = []\<rparr>
   = (Inl (RuntimeError (''GitHub API error: HTTP 403 Forbidden'' @ NL @ pat_marker @ hint)),
      \<lparr>world = [], slept = [], printed = []\<rparr>)"
proof -
  have n404: "str_nat 404 = ''404''" by code_simp
  have n403: "str_nat 403 = ''403''" by code_simp
  have c: "contains pat_marker pat_marker"
    by (simp add: pat_marker_def)
  let ?req = "\<lparr>req_url = ''https://api.github.com/x'', req_method = upper ''GET'',
                req_data = None, req_token = ''t''\<rparr>"
  let ?st1 = "\<lparr>world = [HTTPError 404 ''Not Found'' (Some ''{}'')], slept = [], printed = []\<rparr>"
  let ?st2 = "\<lparr>world = [HTTPError 403 ''Forbidden'' (Some pat_marker)], slept = [], printed = []\<rparr>"
  have u1: "urlopen script_lib (world ?st1) ?req = (HTTPError 404 ''Not Found'' (Some ''{}''), [])"
    by (simp add: script_lib_def script_urlopen_def)
  have u2: "urlopen script_lib (world ?st2) ?req = (HTTPError 403 ''Forbidden'' (Some pat_marker), [])"
    by (simp add: script_lib_def script_urlopen_def)
  have nr: "\<not> retryable 404" by (simp add: retryable_def)
  from http_error_not_retried [where attempt = 0 and retries = 5 and le = None, OF _ u1 refl]
  have a: "http_loop script_lib ?req 5 0 None ?st1 =
      (Inl (RuntimeError (api_error_msg 404 ''Not Found'' ''{}'')), ?st1\<lparr>world := []\<rparr>)"
    using nr by simp
  from http_error_not_retried [where attempt = 0 and retries = 1 and le = None, OF _ u2 refl]
  have b: "http_loop script_lib ?req 1 0 None ?st2 =
      (Inl (RuntimeError (api_error_msg 403 ''Forbidden'' (pat_marker @ hint))), ?st2\<lparr>world := []\<rparr>)"
    using c by simp
  show ?thesis
    using a b by (simp add: http_json_def default_retries_def api_error_msg_def n404 n403)
qed

section \<open>The content picker\<close>

lemma map_of_dict_set: "map_of (dict_set m k v) = (map_of m)(k \<mapsto> v)"
  by (induction m k v rule: dict_set.induct) auto

lemma map_of_lower_dict_gen:
  "map_of (foldl (\<lambda>m d. dict_set m (lower_name lib d) d) m0 files) k =
     (case find (\<lambda>d. lower_name lib d = k) (rev files) of
        Some d \<Rightarrow> Some d | None \<Rightarrow> map_of m0 k)"
  by (induction files rule: rev_induct) (auto simp add: map_of_dict_set)

lemma map_of_lower_dict:
  "map_of (lower_dict lib files) k = find (\<lambda>d. lower_name lib d = k) (rev files)"
  by (simp add: lower_dict_def map_of_lower_dict_gen split: option.splits)

lemma find_filter_hd: "find P xs = (case filter P xs of [] \<Rightarrow> None | x # _ \<Rightarrow> Some x)"
  by (induction xs) auto

lemma hd_sort_key_first_min:
  fixes f :: "'a \<Rightarrow> 'b::linorder"
  assumes "xs \<noteq> []"
  shows "find (\<lambda>d. f d = Min (f ` set xs)) xs = Some (hd (sort_key f xs))"
proof -
  obtain c ys where ys: "sort_key f xs = c # ys"
    using assms by (cases "sort_key f xs") (auto dest: arg_cong [where f = length])
  have "sorted (map f (c # ys))"
    using sorted_sort_key [of f xs] by (simp add: ys)
  then have le: "\<forall>d \<in> set (c # ys). f c \<le> f d" by auto
  have set_eq: "set (c # ys) = set xs"
    using set_sort [of f xs] by (simp add: ys)
  have "Min (f ` set xs) = f c"
  proof (rule Min_eqI)
    show "finite (f ` set xs)" by simp
    show "\<And>y. y \<in> f ` set xs \<Longrightarrow> f c \<le> y" using le set_eq by auto
    show "f c \<in> f ` set xs" using set_eq by auto
  qed
  moreover have "filter (\<lambda>y. f y = f c) xs = filter (\<lambda>y. f y = f c) (c # ys)"
    using sort_key_stable [of f "f c" xs] by (simp add: ys)
  ultimately show ?thesis
    by (simp add: find_filter_hd ys)
qed

lemma lower_names: "lower ''SKILL.md'' = ''skill.md''" "lower ''README.md'' = ''readme.md''"
  "lower ''readme.md'' = ''readme.md''"
  by code_simp+

lemma lower_other: "lower ''other.md'' = ''other.md''" "lower ''notes.md'' = ''notes.md''"
  "lower ''guide.md'' = ''guide.md''" "lower ''manual.md'' = ''manual.md''"
  by code_simp+

lemma guide_le: "''guide.md'' \<le> ''manual.md''"
  by code_simp

lemma lower_name_file_entry: "lower_name lib (file_entry n) = lower n"
  by (simp add: lower_name_def file_entry_def str_or_empty_def py_or_def py_str_def dict_get_def)

lemma strip_examples:
  "strip ''SKILL.md'' = ''SKILL.md''" "strip ''readme.md'' = ''readme.md''"
  "strip ''guide.md'' = ''guide.md''"
  "strip (''https://raw.githubusercontent.com/o/r/main/'' @ ''SKILL.md'') \<noteq> []"
  "strip (''https://raw.githubusercontent.com/o/r/main/'' @ ''readme.md'') \<noteq> []"
  "strip (''https://raw.githubusercontent.com/o/r/main/'' @ ''guide.md'') \<noteq> []"
  by code_simp+

lemma picked_name_file_entry:
  assumes "pick_candidate lib files = Some (file_entry n)"
  shows "picked_name lib files =
     (if strip (''https://raw.githubusercontent.com/o/r/main/'' @ n) = [] then [] else strip n)"
  using assms
  by (simp add: picked_name_def file_entry_def str_or_empty_def py_or_def py_str_def dict_get_def)

text \<open>
  C5, as stated, fails: the picker compares lowered names.  From \<open>README.md\<close> and
  \<open>skill.md\<close> it picks \<open>skill.md\<close>, where the exact-name order of the claim gives
  \<open>README.md\<close>.
\<close>

theorem pick_exact_names_counterexample:
  "picked_name script_lib (map file_entry [''README.md'', ''skill.md'']) = ''skill.md''
   \<and> pick_exact_names [''README.md'', ''skill.md''] = ''README.md''"
  by code_simp

text \<open>
  C5, amended.  The picker compares file names after lowering them: it selects a file
  whose lowered name is \<open>skill.md\<close>, else one whose lowered name is \<open>readme.md\<close> (of
  several files with the same lowered name, the last of the listing); if there is none,
  it selects, among the files whose lowered name ends in \<open>.md\<close>, the one with the
  smallest lowered name (the first of the listing among equals); and nothing if there is
  no such file.  From \<open>README.md\<close>, \<open>SKILL.md\<close>, \<open>other.md\<close> it picks \<open>SKILL.md\<close>; from
  \<open>readme.md\<close>, \<open>notes.md\<close> it picks \<open>readme.md\<close>; from \<open>guide.md\<close>, \<open>manual.md\<close>
  it picks \<open>guide.md\<close>.
\<close>

theorem pick_candidate_case_insensitive:
  "(let ln = lower_name lib;
        skill = find (\<lambda>d. ln d = ''skill.md'') (rev files);
        readme = find (\<lambda>d. ln d = ''readme.md'') (rev files);
        mds = filter (\<lambda>d. endswith (ln d) ''.md'') files
    in pick_candidate lib files =
         (if skill \<noteq> None then skill
          else if readme \<noteq> None then readme
          else if mds = [] then None
          else find (\<lambda>d. ln d = Min (ln ` set mds)) mds))
   \<and> picked_name lib (map file_entry [''README.md'', ''SKILL.md'', ''other.md'']) = ''SKILL.md''
   \<and> picked_name lib (map file_entry [''readme.md'', ''notes.md'']) = ''readme.md''
   \<and> picked_name lib (map file_entry [''guide.md'', ''manual.md'']) = ''guide.md''"
proof -
  define mds where "mds = filter (\<lambda>d. endswith (lower_name lib d) ''.md'') files"
  have fb: "(case sort_key (lower_name lib) mds of [] \<Rightarrow> None | d # ds \<Rightarrow> Some d) =
        (if mds = [] then None else find (\<lambda>d. lower_name lib d = Min (lower_name lib ` set mds)) mds)"
  proof (cases "mds = []")
    case True then show ?thesis by simp
  next
    case False
    then have "sort_key (lower_name lib) mds \<noteq> []"
      by (auto dest: arg_cong [where f = length])
    with False hd_sort_key_first_min [OF False, of "lower_name lib"] show ?thesis
      by (cases "sort_key (lower_name lib) mds") auto
  qed
  have gen: "pick_candidate lib files =
     (if find (\<lambda>d. lower_name lib d = ''skill.md'') (rev files) \<noteq> None
      then find (\<lambda>d. lower_name lib d = ''skill.md'') (rev files)
      else if find (\<lambda>d. lower_name lib d = ''readme.md'') (rev files) \<noteq> None
      then find (\<lambda>d. lower_name lib d = ''readme.md'') (rev files)
      else if mds = [] then None
      else find (\<lambda>d. lower_name lib d = Min (lower_name lib ` set mds)) mds)"
    unfolding pick_candidate_def find_name_def Let_def mds_def [symmetric] fb
    by (auto simp add: map_of_lower_dict lower_names split: option.splits)
  have e1: "pick_candidate lib (map file_entry [''README.md'', ''SKILL.md'', ''other.md''])
             = Some (file_entry ''SKILL.md'')"
    unfolding pick_candidate_def find_name_def lower_dict_def
    by (simp add: lower_name_file_entry lower_names lower_other)
  have e2: "pick_candidate lib (map file_entry [''readme.md'', ''notes.md''])
             = Some (file_entry ''readme.md'')"
    unfolding pick_candidate_def find_name_def lower_dict_def
    by (simp add: lower_name_file_entry lower_names lower_other)
  have e3: "pick_candidate lib (map file_entry [''guide.md'', ''manual.md''])
             = Some (file_entry ''guide.md'')"
    unfolding pick_candidate_def find_name_def lower_dict_def
    by (simp add: lower_name_file_entry lower_names lower_other endswith_def guide_le)
  show ?thesis
    unfolding Let_def mds_def [symmetric]
    using gen picked_name_file_entry [OF e1] picked_name_file_entry [OF e2]
      picked_name_file_entry [OF e3] strip_examples
    by simp
qed

theorem pick_candidate_case_insensitive_witness:
  "pick_candidate script_lib (map file_entry [''README.md'', ''skill.md''])
     = Some (file_entry ''skill.md'')"
proof -
  have l: "lower ''skill.md'' = ''skill.md''" by code_simp
  from pick_candidate_case_insensitive
         [of script_lib "map file_entry [''README.md'', ''skill.md'']"]
  show ?thesis
    by (simp add: Let_def lower_name_file_entry lower_names l)
qed

section \<open>Pagination\<close>

lemma split_on_no_sep: "c \<notin> set xs \<Longrightarrow> split_on c xs = [xs]"
  by (induction xs) auto

lemma split_on_append: "c \<notin> set xs \<Longrightarrow> split_on c (xs @ c # ys) = xs # split_on c ys"
  by (induction xs) auto

lemma contains_append_sep:
  assumes "c \<notin> set sub" and "sub \<noteq> []"
  shows "contains sub (u @ c # t) \<longleftrightarrow> contains sub u \<or> contains sub t"
proof (induction u)
  case Nil
  have "take (length sub) (c # t) \<noteq> sub"
    using assms by (cases sub) auto
  with assms show ?case by simp
next
  case (Cons x u)
  have "take (length sub) (x # u @ c # t) = sub \<longleftrightarrow> take (length sub) (x # u) = sub"
  proof (cases "length sub \<le> length (x # u)")
    case True
    have "take (length sub) ((x # u) @ (c # t)) = take (length sub) (x # u)"
      using True by (subst take_append) simp
    then show ?thesis by simp
  next
    case False
    then have k: "length (x # u) < length sub" by simp
    have "take (length sub) (x # u @ c # t) \<noteq> sub"
    proof
      assume e: "take (length sub) (x # u @ c # t) = sub"
      have "(x # u @ c # t) ! length (x # u) = c"
        by (metis append_Cons nth_append_length)
      then have "sub ! length (x # u) = c"
        using k e by (metis nth_take)
      then show False
        using assms(1) k by (metis nth_mem)
    qed
    moreover have "take (length sub) (x # u) \<noteq> sub"
      using k by (metis length_take min.absorb2 less_imp_le_nat nat_neq_iff take_all)
    ultimately show ?thesis by simp
  qed
  with Cons show ?case by auto
qed

lemma contains_self_append: "sub \<noteq> [] \<Longrightarrow> contains sub (sub @ b)"
  by (cases sub) simp_all

lemma contains_append_left: "contains sub t \<Longrightarrow> contains sub (u @ t)"
  by (induction u) auto


lemma rel_texts_other:
  "\<not> contains ''rel=\"next\"'' (''; rel=\"prev\"'' @ ''\"'')" "\<not> contains ''rel=next'' (''; rel=\"prev\"'' @ ''\"'')"
  "\<not> contains ''rel=\"next\"'' (''; rel=\"first\"'' @ ''\"'')" "\<not> contains ''rel=next'' (''; rel=\"first\"'' @ ''\"'')"
  "\<not> contains ''rel=\"next\"'' (''; rel=\"last\"'' @ ''\"'')" "\<not> contains ''rel=next'' (''; rel=\"last\"'' @ ''\"'')"
  by code_simp+

lemma render_entry_shape:
  "render_entry (u, r) = (CHR ''<'' # u) @ CHR ''>'' # (''; rel=\"'' @ rel_name r @ ''\"'')"
  by (simp add: render_entry_def)

lemma rel_next_entry:
  assumes "plain_url u"
  shows "rel_next (render_entry (u, r)) \<longleftrightarrow> r = RelNext"
proof (cases "r = RelNext")
  case True
  have "contains ''rel=\"next\"'' (''rel=\"next\"'' @ [])"
    by (rule contains_self_append) simp
  then have "contains ''rel=\"next\"'' (((CHR ''<'' # u) @ ''>; '') @ ''rel=\"next\"'')"
    by (intro contains_append_left) simp
  then show ?thesis
    using True by (simp add: rel_next_def render_entry_def)
next
  case False
  have a: "\<not> contains sub (CHR ''<'' # u)"
    if "\<not> contains sub u" "CHR ''<'' \<notin> set sub" "sub \<noteq> []" for sub
    using contains_append_sep [of "CHR ''<''" sub "[]" u] that by simp
  have b: "\<not> contains ''rel=\"next\"'' (''; rel=\"'' @ rel_name r @ ''\"'')"
          "\<not> contains ''rel=next'' (''; rel=\"'' @ rel_name r @ ''\"'')"
    using False rel_texts_other by (cases r; simp)+
  have "\<not> contains ''rel=\"next\"'' (render_entry (u, r))"
    unfolding render_entry_shape
    using assms a [of "''rel=\"next\"''"] b(1)
    by (subst contains_append_sep) (simp_all add: plain_url_def)
  moreover have "\<not> contains ''rel=next'' (render_entry (u, r))"
    unfolding render_entry_shape
    using assms a [of "''rel=next''"] b(2)
    by (subst contains_append_sep) (simp_all add: plain_url_def)
  ultimately show ?thesis
    using False by (simp add: rel_next_def)
qed

lemma search_angle_entry:
  assumes "plain_url u"
  shows "search_angle (render_entry (u, r)) = Some u"
proof -
  have n: "\<forall>x \<in> set u. x \<noteq> CHR ''>''" and ne: "u \<noteq> []"
    using assms by (auto simp add: plain_url_def)
  have t: "takeWhile (\<lambda>x. x \<noteq> CHR ''>'') (u @ CHR ''>'' # rest) = u" for rest
    using n by (simp add: takeWhile_append2)
  have d: "dropWhile (\<lambda>x. x \<noteq> CHR ''>'') (u @ CHR ''>'' # rest) = CHR ''>'' # rest" for rest
    using n by (simp add: dropWhile_append2)
  show ?thesis
    unfolding render_entry_shape using t d ne by simp
qed

lemma first_next_entries:
  assumes "\<forall>e \<in> set entries. plain_url (fst e)"
  shows "first_next (map render_entry entries) = (case next_url entries of None \<Rightarrow> [] | Some u \<Rightarrow> u)"
  using assms
proof (induction entries)
  case Nil
  show ?case by (simp add: next_url_def)
next
  case (Cons e es)
  obtain u r where e: "e = (u, r)" by (cases e)
  with Cons.prems have p: "plain_url u" by simp
  from Cons have ih: "first_next (map render_entry es) =
      (case next_url es of None \<Rightarrow> [] | Some u \<Rightarrow> u)" by simp
  show ?case
    using ih by (simp add: e rel_next_entry [OF p] search_angle_entry [OF p] next_url_def)
qed


lemma space_chars:
  "is_space (CHR '' '')" "\<not> is_space (CHR ''<'')" "\<not> is_space (CHR 0x22)"
  by code_simp+

lemma strip_nonspace_ends:
  "\<not> is_space a \<Longrightarrow> \<not> is_space b \<Longrightarrow> strip (a # m @ [b]) = a # m @ [b]"
  by (simp add: strip_def lstrip_def rstrip_def)

lemma strip_leading_space: "strip (CHR '' '' # s) = strip s"
  by (simp add: strip_def lstrip_def space_chars)

lemma strip_entry:
  "strip (render_entry e) = render_entry e" "strip (CHR '' '' # render_entry e) = render_entry e"
proof -
  have "render_entry e = CHR ''<'' # (fst e @ ''>; rel=\"'' @ rel_name (snd e)) @ [CHR 0x22]"
    by (simp add: render_entry_def)
  then show "strip (render_entry e) = render_entry e"
    using strip_nonspace_ends [OF space_chars(2) space_chars(3)] by metis
  then show "strip (CHR '' '' # render_entry e) = render_entry e"
    by (simp add: strip_leading_space)
qed

lemma render_entry_no_comma: "plain_url (fst e) \<Longrightarrow> CHR '','' \<notin> set (render_entry e)"
  by (cases "snd e") (simp_all add: render_entry_def plain_url_def)

lemma split_render_gen:
  assumes "\<forall>e \<in> set es. plain_url (fst e)" and "CHR '','' \<notin> set pre" and "es \<noteq> []"
  shows "split_on (CHR '','') (pre @ render_link es) =
           (pre @ render_entry (hd es)) # map (\<lambda>e. CHR '' '' # render_entry e) (tl es)"
  using assms
proof (induction es arbitrary: pre)
  case Nil
  then show ?case by simp
next
  case (Cons e es)
  show ?case
  proof (cases es)
    case Nil
    with Cons.prems show ?thesis
      by (simp add: render_link_def split_on_no_sep render_entry_no_comma)
  next
    case (Cons e2 rest)
    have c: "CHR '','' \<notin> set (pre @ render_entry e)"
      using Cons.prems by (simp add: render_entry_no_comma)
    have "pre @ render_link (e # es) = (pre @ render_entry e) @ CHR '','' # ('' '' @ render_link es)"
      by (simp add: render_link_def Cons)
    then have "split_on (CHR '','') (pre @ render_link (e # es)) =
                 (pre @ render_entry e) # split_on (CHR '','') ('' '' @ render_link es)"
      using split_on_append [OF c] by simp
    moreover have "split_on (CHR '','') ('' '' @ render_link es) =
                 ('' '' @ render_entry (hd es)) # map (\<lambda>e. CHR '' '' # render_entry e) (tl es)"
      using Cons.prems Cons by (intro Cons.IH) simp_all
    ultimately show ?thesis
      by (simp add: Cons)
  qed
qed

lemma parse_link_next_render:
  assumes "\<forall>e \<in> set entries. plain_url (fst e)"
  shows "parse_link_next (render_link entries) = (case next_url entries of None \<Rightarrow> [] | Some u \<Rightarrow> u)"
proof (cases entries)
  case Nil
  then show ?thesis
    by (simp add: render_link_def parse_link_next_def next_url_def)
next
  case (Cons e es)
  have ne: "render_link entries \<noteq> []"
    by (cases es) (simp_all add: Cons render_link_def render_entry_def)
  have "split_on (CHR '','') ([] @ render_link entries) =
           ([] @ render_entry (hd entries)) # map (\<lambda>e. CHR '' '' # render_entry e) (tl entries)"
    using assms Cons by (intro split_render_gen) simp_all
  then have "map strip (split_on (CHR '','') (render_link entries)) = map render_entry entries"
    by (simp add: Cons strip_entry)
  then show ?thesis
    using ne first_next_entries [OF assms] by (simp add: parse_link_next_def)
qed

lemma map_of_lower_headers_gen:
  "map_of (foldl (\<lambda>d (k, v). dict_set d (lower k) v) d0 hs) =
     map_of d0 ++ map_of (rev (map (\<lambda>h. (lower (fst h), snd h)) hs))"
proof (induction hs arbitrary: d0)
  case Nil
  show ?case by simp
next
  case (Cons h hs)
  obtain k v where h: "h = (k, v)" by (cases h)
  show ?case
    by (simp add: h Cons map_of_dict_set map_add_upd_left [symmetric] fun_eq_iff map_add_def
          split: option.splits)
qed

lemma map_of_rev_distinct: "distinct (map fst xs) \<Longrightarrow> map_of (rev xs) = map_of xs"
proof (induction xs)
  case Nil
  show ?case by simp
next
  case (Cons x xs)
  then have "map_of xs (fst x) = None"
    by (simp add: map_of_eq_None_iff)
  with Cons show ?case
    by (auto simp add: map_of_append fun_eq_iff map_add_def split: option.splits)
qed

lemma header_get_link:
  assumes "link_is hs v"
  shows "header_get (lower_headers hs) ''link'' = v"
proof -
  let ?L = "map (\<lambda>h. (lower (fst h), snd h)) hs"
  have d: "distinct (map fst ?L)"
    using assms by (simp add: link_is_def comp_def)
  have m: "map_of (lower_headers hs) = map_of ?L"
    using map_of_lower_headers_gen [of "[]" hs] d
    by (simp add: lower_headers_def map_of_rev_distinct)
  show ?thesis
  proof (cases "\<exists>h \<in> set hs. lower (fst h) = ''link'' \<and> snd h = v")
    case True
    then have "(''link'', v) \<in> set ?L" by force
    then have "map_of ?L ''link'' = Some v"
      using d by (simp only: map_of_eq_Some_iff)
    then show ?thesis by (simp add: header_get_def m)
  next
    case False
    with assms have "v = []" and "''link'' \<notin> fst ` set ?L"
      by (auto simp add: link_is_def image_iff)
    then have "map_of ?L ''link'' = None" and "v = []"
      by (simp_all add: map_of_eq_None_iff)
    then show ?thesis by (simp add: header_get_def m)
  qed
qed


lemma upper_GET: "upper ''GET'' = ''GET''"
  by code_simp

lemma page_http_json:
  assumes "urlopen lib (world st) (get_request url token) = (Response body hs, w')"
    and "strip body \<noteq> []" and "loads lib body = Some j"
  shows "http_json lib url ''GET'' token None default_retries st =
           (Inr (j, lower_headers hs), st\<lparr>world := w'\<rparr>)"
  unfolding http_json_def upper_GET
  using assms(1) by (intro http_loop_ok [OF _ _ assms(2,3)]) (simp_all add: default_retries_def get_request_def)

lemma page_request_json:
  assumes "urlopen lib (world st) (get_request url token) = (Response body hs, w')"
    and "loads lib body = Some (JList items)"
  shows "request_json lib url token st = (Inr (items, lower_headers hs), st\<lparr>world := w'\<rparr>)"
  using assms by (simp add: request_json_def get_request_def)

lemma next_url_plain:
  assumes "next_url entries = Some u" and "\<forall>e \<in> set entries. plain_url (fst e)"
  shows "u \<noteq> []"
proof -
  from assms(1) obtain e es where f: "filter (\<lambda>e. snd e = RelNext) entries = e # es" and u: "u = fst e"
    by (auto simp add: next_url_def split: list.splits)
  from f have "e \<in> set (filter (\<lambda>e. snd e = RelNext) entries)" by simp
  then have "e \<in> set entries" by simp
  with assms(2) u show ?thesis by (auto simp add: plain_url_def)
qed

lemma link_followed:
  assumes "link_is hs (render_link entries)" and "\<forall>e \<in> set entries. plain_url (fst e)"
  shows "parse_link_next (header_get (lower_headers hs) ''link'') =
           (case next_url entries of None \<Rightarrow> [] | Some u \<Rightarrow> u)"
  by (simp add: header_get_link [OF assms(1)] parse_link_next_render [OF assms(2)])

lemma iter_pages_chain:
  assumes "pages_chain lib token url w pages w'" and "world st = w" and "url \<noteq> []"
  shows "iter_pages lib token url out st =
           Some (Inr (out @ concat (map (filter keep_issue) pages)), st\<lparr>world := w'\<rparr>)"
  using assms
proof (induction arbitrary: out st rule: pages_chain.induct)
  case (last_page lib w url token body hs w' items entries)
  have h: "http_json lib url ''GET'' token None default_retries st =
             (Inr (JList items, lower_headers hs), st\<lparr>world := w'\<rparr>)"
    using last_page by (intro page_http_json) simp_all
  have n: "parse_link_next (header_get (lower_headers hs) ''link'') = []"
    using link_followed [OF last_page(4,5)] last_page(6) by simp
  show ?case
    using last_page(8) by (subst iter_pages.simps, simp add: h n) (subst iter_pages.simps, simp)
next
  case (next_page lib w url token body hs w1 items entries u pages w')
  have h: "http_json lib url ''GET'' token None default_retries st =
             (Inr (JList items, lower_headers hs), st\<lparr>world := w1\<rparr>)"
    using next_page by (intro page_http_json) simp_all
  have n: "parse_link_next (header_get (lower_headers hs) ''link'') = u"
    using link_followed [OF next_page(4,5)] next_page(6) by simp
  have une: "u \<noteq> []"
    using next_url_plain [OF next_page(6,5)] .
  have "iter_pages lib token u (out @ filter keep_issue items) (st\<lparr>world := w1\<rparr>) =
          Some (Inr ((out @ filter keep_issue items) @ concat (map (filter keep_issue) pages)),
                st\<lparr>world := w1\<rparr>\<lparr>world := w'\<rparr>)"
    using une by (intro next_page.IH) simp_all
  then show ?case
    using next_page.prems(2) by (subst iter_pages.simps) (simp add: h n)
qed

lemma keep_issue_iff: "keep_issue it \<longleftrightarrow> is_dict it \<and> \<not> has_pull_request it"
  by (cases it) simp_all

lemma page_items_ok:
  assumes "\<forall>it \<in> set items. keep_issue it \<longrightarrow> \<not> isl (issue_item lib ilib it)"
  shows "page_items lib ilib items =
           Inr (map (projr \<circ> issue_item lib ilib) (filter keep_issue items))"
  using assms
proof (induction items)
  case Nil
  show ?case by simp
next
  case (Cons it its)
  show ?case
  proof (cases "keep_issue it")
    case True
    with Cons.prems obtain x where x: "issue_item lib ilib it = Inr x"
      by (cases "issue_item lib ilib it") auto
    from True Cons x show ?thesis
      by (simp add: keep_issue_iff)
  next
    case False
    with Cons show ?thesis
      by (auto simp add: keep_issue_iff)
  qed
qed


lemma lister_pages_chain:
  assumes "pages_chain lib token url w pages w'" and "world st = w" and "url \<noteq> []"
    and "\<forall>items \<in> set pages. \<forall>it \<in> set items. keep_issue it \<longrightarrow> \<not> isl (issue_item lib ilib it)"
  shows "lister_pages lib ilib token url out st =
           Some (Inr (out @ map (projr \<circ> issue_item lib ilib)
                              (concat (map (filter keep_issue) pages))), st\<lparr>world := w'\<rparr>)"
  using assms
proof (induction arbitrary: out st rule: pages_chain.induct)
  case (last_page lib w url token body hs w' items entries)
  have h: "request_json lib url token st = (Inr (items, lower_headers hs), st\<lparr>world := w'\<rparr>)"
    using last_page by (intro page_request_json) simp_all
  have n: "parse_link_next (header_get (lower_headers hs) ''link'') = []"
    using link_followed [OF last_page(4,5)] last_page(6) by simp
  have pi: "page_items lib ilib items =
      Inr (map (projr \<circ> issue_item lib ilib) (filter keep_issue items))"
    using last_page(9) by (intro page_items_ok) simp
  show ?case
    using last_page(8) by (subst lister_pages.simps, simp add: h n pi) (subst lister_pages.simps, simp)
next
  case (next_page lib w url token body hs w1 items entries u pages w')
  have h: "request_json lib url token st = (Inr (items, lower_headers hs), st\<lparr>world := w1\<rparr>)"
    using next_page by (intro page_request_json) simp_all
  have n: "parse_link_next (header_get (lower_headers hs) ''link'') = u"
    using link_followed [OF next_page(4,5)] next_page(6) by simp
  have une: "u \<noteq> []"
    using next_url_plain [OF next_page(6,5)] .
  have pi: "page_items lib ilib items =
      Inr (map (projr \<circ> issue_item lib ilib) (filter keep_issue items))"
    using next_page.prems(3) by (intro page_items_ok) simp
  have rest: "\<forall>items \<in> set pages. \<forall>it \<in> set items. keep_issue it \<longrightarrow> \<not> isl (issue_item lib ilib it)"
    using next_page.prems(3) by simp
  have "lister_pages lib ilib token u
          (out @ map (projr \<circ> issue_item lib ilib) (filter keep_issue items)) (st\<lparr>world := w1\<rparr>) =
          Some (Inr ((out @ map (projr \<circ> issue_item lib ilib) (filter keep_issue items))
                      @ map (projr \<circ> issue_item lib ilib) (concat (map (filter keep_issue) pages))),
                st\<lparr>world := w1\<rparr>\<lparr>world := w'\<rparr>)"
    using une rest by (intro next_page.IH) simp_all
  then show ?case
    using next_page.prems(2) by (subst lister_pages.simps) (simp add: h n pi)
qed


text \<open>
  C2, as stated, fails: the parser splits the link header at every comma.  When the URL
  of the \<open>rel="next"\<close> entry holds a comma, no part holds both the relation and a whole
  \<open><url>\<close>, and the loop stops after the first page although its header has a next entry:
  the second page is never asked for.
\<close>

theorem comma_in_next_url_counterexample:
  "comma_link = render_link [(''https://api.github.com/repositories/1/issues?labels=a,b&page=2'', RelNext)]
   \<and> next_url [(''https://api.github.com/repositories/1/issues?labels=a,b&page=2'', RelNext)]
       = Some ''https://api.github.com/repositories/1/issues?labels=a,b&page=2''
   \<and> iter_issues script_lib ''https://api.github.com/'' ''o/r'' ''t'' ''all'' []
        \<lparr>world = [Response example_page1 [(''Link'', comma_link)], Response example_page2 []],
         slept = [], printed = []\<rparr>
       = Some (Inr [JDict [(''number'', JInt 1)]],
               \<lparr>world = [Response example_page2 []], slept = [], printed = []\<rparr>)"
  by code_simp

text \<open>
  C2, amended.  Let the issue listing be answered by N pages, where every link header is
  a list of entries \<open><url>; rel="name"\<close> joined by a comma and a space, with names among
  \<open>next\<close>, \<open>prev\<close>, \<open>first\<close>, \<open>last\<close> and URLs that are not empty and hold no comma,
  no \<open>>\<close> and no text \<open>rel="next"\<close> or \<open>rel=next\<close>; each page but the last has a
  \<open>next\<close> entry, whose URL is the request that the following page answers, and the last
  page has none (or no link header).  Then \<open>_iter_issues\<close> asks for exactly these
  pages and returns after the last one, and its result is the concatenation of the pages
  in order with the items carrying a \<open>pull_request\<close> field removed (an item is kept
  exactly when it is an object without that key).  This holds for the importer's
  \<open>_iter_issues\<close> and for the lister's, whose result holds the \<open>IssueItem\<close> of each kept
  item.
\<close>

theorem iter_issues_concat_pages:
  assumes "split_repo repo = Some (owner, name)"
  shows "(pages_chain lib token (issues_url lib api_base owner name state labels) (world st) pages w'
            \<longrightarrow> iter_issues lib api_base repo token state labels st =
                  Some (Inr (concat (map (filter keep_issue) pages)), st\<lparr>world := w'\<rparr>))
       \<and> (pages_chain lib token (lister_issues_url lib api_base owner name state) (world lst) lpages lw'
            \<and> (\<forall>items \<in> set lpages. \<forall>it \<in> set items.
                   keep_issue it \<longrightarrow> \<not> isl (issue_item lib ilib it))
            \<longrightarrow> lister_iter_issues lib ilib api_base repo token state lst =
                  Some (Inr (map (projr \<circ> issue_item lib ilib)
                               (concat (map (filter keep_issue) lpages))), lst\<lparr>world := lw'\<rparr>))
       \<and> (\<forall>it. keep_issue it \<longleftrightarrow> is_dict it \<and> \<not> has_pull_request it)"
proof (intro conjI impI allI)
  assume c: "pages_chain lib token (issues_url lib api_base owner name state labels) (world st) pages w'"
  have ne: "issues_url lib api_base owner name state labels \<noteq> []"
    by (simp add: issues_url_def)
  show "iter_issues lib api_base repo token state labels st =
          Some (Inr (concat (map (filter keep_issue) pages)), st\<lparr>world := w'\<rparr>)"
    using iter_pages_chain [OF c refl ne, of "[]"] assms by (simp add: iter_issues_def)
next
  assume c: "pages_chain lib token (lister_issues_url lib api_base owner name state) (world lst) lpages lw'
            \<and> (\<forall>items \<in> set lpages. \<forall>it \<in> set items.
                   keep_issue it \<longrightarrow> \<not> isl (issue_item lib ilib it))"
  have lne: "lister_issues_url lib api_base owner name state \<noteq> []"
    by (simp add: lister_issues_url_def)
  show "lister_iter_issues lib ilib api_base repo token state lst =
          Some (Inr (map (projr \<circ> issue_item lib ilib)
                       (concat (map (filter keep_issue) lpages))), lst\<lparr>world := lw'\<rparr>)"
    using lister_pages_chain [OF conjunct1 [OF c] refl lne conjunct2 [OF c], of "[]"] assms
    by (simp add: lister_iter_issues_def)
next
  fix it
  show "keep_issue it \<longleftrightarrow> is_dict it \<and> \<not> has_pull_request it"
    by (rule keep_issue_iff)
qed

theorem iter_issues_concat_pages_witness:
  "iter_issues script_lib ''https://api.github.com/'' ''o/r'' ''t'' ''all'' []
      \<lparr>world = example_pages, slept = [], printed = []\<rparr>
    = Some (Inr [JDict [(''number'', JInt 1)], JDict [(''number'', JInt 3)]],
            \<lparr>world = [], slept = [], printed = []\<rparr>)
   \<and> lister_iter_issues script_lib no_int_lib ''https://api.github.com/'' ''o/r'' ''t'' ''all''
      \<lparr>world = example_pages, slept = [], printed = []\<rparr>
    = Some (Inr [example_item 1, example_item 3], \<lparr>world = [], slept = [], printed = []\<rparr>)"
proof -
  let ?p1 = "[JDict [(''number'', JInt 1)], JDict [(''number'', JInt 2), (''pull_request'', JDict [])], JInt 5]"
  let ?p2 = "[JDict [(''number'', JInt 3)]]"
  let ?e1 = "[(''https://api.github.com/p2'', RelNext), (''https://api.github.com/p9'', RelLast)]"
  let ?st0 = "\<lparr>world = example_pages, slept = [], printed = []\<rparr>"
  have sp: "split_repo ''o/r'' = Some (''o'', ''r'')"
    by (simp add: split_repo_def)
  have l1: "loads script_lib example_page1 = Some (JList ?p1)"
    unfolding example_page1_def script_lib_def by simp code_simp
  have l2: "loads script_lib example_page2 = Some (JList ?p2)"
    unfolding example_page2_def script_lib_def by simp code_simp
  have s1: "strip example_page1 \<noteq> []"
    unfolding example_page1_def by code_simp
  have s2: "strip example_page2 \<noteq> []"
    unfolding example_page2_def by code_simp
  have r1: "example_link = render_link ?e1"
    unfolding example_link_def by code_simp
  have k1: "link_is [(''Link'', example_link)] (render_link ?e1)"
    unfolding r1 [symmetric] link_is_def by (simp add: example_link_def) code_simp
  have k2: "link_is [] (render_link [])"
    by (simp add: link_is_def render_link_def)
  have p1: "\<forall>e \<in> set ?e1. plain_url (fst e)"
    by (simp add: plain_url_def)
  have n1: "next_url ?e1 = Some ''https://api.github.com/p2''"
    by (simp add: next_url_def)
  have n2: "next_url [] = None"
    by (simp add: next_url_def)
  have c2: "pages_chain script_lib ''t'' ''https://api.github.com/p2'' [Response example_page2 []] [?p2] []"
    by (rule last_page [OF _ s2 l2 k2 _ n2]) (simp_all add: script_lib_def script_urlopen_def)
  have c1: "pages_chain script_lib ''t'' u (world ?st0) [?p1, ?p2] []" for u
    by (rule next_page [OF _ s1 l1 k1 p1 n1 c2])
       (simp add: script_lib_def script_urlopen_def example_pages_def)
  have i1: "issue_item script_lib no_int_lib (JDict [(''number'', JInt 1)]) = Inr (example_item 1)"
    by (simp add: issue_item_def issue_item_of_def int_or_0_def names_of_def py_or_def
          str_or_empty_def py_str_def dict_get_def example_item_def)
  have i3: "issue_item script_lib no_int_lib (JDict [(''number'', JInt 3)]) = Inr (example_item 3)"
    by (simp add: issue_item_def issue_item_of_def int_or_0_def names_of_def py_or_def
          str_or_empty_def py_str_def dict_get_def example_item_def)
  have conv: "\<forall>items \<in> set [?p1, ?p2]. \<forall>it \<in> set items.
                keep_issue it \<longrightarrow> \<not> isl (issue_item script_lib no_int_lib it)"
    by (simp add: i1 i3)
  note t = iter_issues_concat_pages [OF sp, of script_lib "''t''" "''https://api.github.com/''"
      "''all''" "[]" ?st0 "[?p1, ?p2]" "[]" ?st0 "[?p1, ?p2]" "[]" no_int_lib]
  from t c1 conv show ?thesis
    by (simp add: i1 i3)
qed

section \<open>The metadata extractor\<close>

text \<open>
  C9.  Let the issue body hold an \<open>operit-skill-json\<close> comment.  If its JSON is an
  object in which \<open>repositoryUrl\<close> is missing or empty, the extractor returns the
  (stringified, stripped) value of the legacy key \<open>repoUrl\<close>; if neither key holds a
  value it returns the empty string; and if the JSON is malformed it returns the empty
  string as well.
\<close>

theorem extract_legacy_key_fallback:
  assumes "search_meta issue_body = Some raw"
  shows "(loads lib raw = Some (JDict d) \<and> \<not> truthy (dict_get d ''repositoryUrl'')
            \<and> truthy (dict_get d ''repoUrl'')
          \<longrightarrow> extract_skill_metadata_repo_url lib issue_body
                = strip (py_str (repr lib) (dict_get d ''repoUrl'')))
       \<and> (loads lib raw = Some (JDict d) \<and> \<not> truthy (dict_get d ''repositoryUrl'')
            \<and> \<not> truthy (dict_get d ''repoUrl'')
          \<longrightarrow> extract_skill_metadata_repo_url lib issue_body = [])
       \<and> (loads lib raw = None \<longrightarrow> extract_skill_metadata_repo_url lib issue_body = [])"
proof -
  have ne: "issue_body \<noteq> []"
    using assms by (cases issue_body) simp_all
  have e: "strip (py_str (repr lib) (JStr [])) = []"
    by (simp add: py_str_def strip_def lstrip_def rstrip_def)
  show ?thesis
    using assms ne e by (simp add: extract_skill_metadata_repo_url_def py_or_def)
qed

theorem extract_legacy_key_fallback_witness:
  "extract_skill_metadata_repo_url script_lib legacy_body = ''https://github.com/o/r''
   \<and> extract_skill_metadata_repo_url script_lib empty_url_body = []
   \<and> extract_skill_metadata_repo_url script_lib malformed_body = []"
proof -
  have s1: "search_meta legacy_body = Some ''{\"repoUrl\":\"https://github.com/o/r\"}''"
    unfolding legacy_body_def by code_simp
  have s2: "search_meta empty_url_body = Some ''{\"repositoryUrl\":\"\"}''"
    unfolding empty_url_body_def by code_simp
  have s3: "search_meta malformed_body = Some ''{oops}''"
    unfolding malformed_body_def by code_simp
  have l1: "loads script_lib ''{\"repoUrl\":\"https://github.com/o/r\"}''
              = Some (JDict [(''repoUrl'', JStr ''https://github.com/o/r'')])"
    unfolding script_lib_def by simp code_simp
  have l2: "loads script_lib ''{\"repositoryUrl\":\"\"}'' = Some (JDict [(''repositoryUrl'', JStr [])])"
    unfolding script_lib_def by simp code_simp
  have l3: "loads script_lib ''{oops}'' = None"
    unfolding script_lib_def by simp code_simp
  have st: "strip ''https://github.com/o/r'' = ''https://github.com/o/r''"
    by code_simp
  have a: "extract_skill_metadata_repo_url script_lib legacy_body = ''https://github.com/o/r''"
    using extract_legacy_key_fallback [OF s1, of script_lib "[(''repoUrl'', JStr ''https://github.com/o/r'')]"] l1
    by (simp add: dict_get_def py_str_def st)
  have b: "extract_skill_metadata_repo_url script_lib empty_url_body = []"
    using extract_legacy_key_fallback [OF s2, of script_lib "[(''repositoryUrl'', JStr [])]"] l2
    by (simp add: dict_get_def)
  have c: "extract_skill_metadata_repo_url script_lib malformed_body = []"
    using extract_legacy_key_fallback [OF s3, of script_lib] l3
    by simp
  show ?thesis using a b c by simp
qed

section \<open>The issue body and its metadata\<close>

lemma is_space_chars:
  "is_space (CHR '' '')" "\<not> is_space (CHR ''o'')" "\<not> is_space (CHR ''{'')"
  "\<not> is_space (CHR ''}'')" "\<not> is_space (CHR ''-'')"
  by code_simp+

lemma lookahead_stable:
  "startswith (dropWhile is_space (xs @ ''}'' @ z)) ''-->''
     = startswith (dropWhile is_space (xs @ ''}'')) ''-->''"
proof (induction xs)
  case Nil
  show ?case by (simp add: is_space_chars startswith_def)
next
  case (Cons x xs)
  show ?case
  proof (cases "is_space x")
    case True
    with Cons show ?thesis by simp
  next
    case False
    then show ?thesis
      by (cases xs; cases "tl xs") (auto simp add: startswith_def)
  qed
qed

lemma scan_close_first:
  "\<not> early_close (xs @ ''}'')
     \<Longrightarrow> scan_close acc (xs @ ''}'' @ '' -->'' @ tail) = Some (acc @ xs @ ''}'')"
proof (induction xs arbitrary: acc)
  case Nil
  show ?case by (simp add: is_space_chars startswith_def)
next
  case (Cons x xs)
  from Cons.prems have no: "\<not> (x = CHR ''}'' \<and> startswith (dropWhile is_space (xs @ ''}'')) ''-->'')"
    and rest: "\<not> early_close (xs @ ''}'')"
    by simp_all
  from no have "\<not> (x = CHR ''}'' \<and> startswith (dropWhile is_space (xs @ ''}'' @ '' -->'' @ tail)) ''-->'')"
    using lookahead_stable [of xs "'' -->'' @ tail"] by simp
  with Cons.IH [OF rest, of "acc @ [x]"] show ?case
    by simp
qed

lemma match_meta_here_comment:
  assumes "\<not> early_close (''{'' @ mid @ ''}'')"
  shows "match_meta_here (''<!-- operit-skill-json: '' @ (''{'' @ mid @ ''}'') @ '' -->'' @ tail)
           = Some (''{'' @ mid @ ''}'')"
proof -
  from assms have "\<not> early_close (mid @ ''}'')"
    by (simp add: is_space_chars)
  from scan_close_first [OF this, of "''{''" tail] show ?thesis
    by (simp add: match_meta_here_def startswith_def is_space_chars)
qed


lemma dumps_metadata_braces:
  "\<exists>mid. dumps_metadata url version = ''{'' @ mid @ ''}''"
  by (simp add: dumps_metadata_def)

lemma build_body_shape:
  "\<exists>tail. build_operit_issue_body lib lit description url version
            = ''<!-- operit-skill-json: '' @ dumps_metadata url version @ '' -->'' @ tail"
  by (simp add: build_operit_issue_body_def)

lemma search_meta_built_body:
  assumes "\<not> early_close (dumps_metadata url version)"
  shows "search_meta (build_operit_issue_body lib lit description url version)
           = Some (dumps_metadata url version)"
proof -
  obtain mid where mid: "dumps_metadata url version = ''{'' @ mid @ ''}''"
    using dumps_metadata_braces by blast
  obtain tail where tail: "build_operit_issue_body lib lit description url version
            = ''<!-- operit-skill-json: '' @ dumps_metadata url version @ '' -->'' @ tail"
    using build_body_shape by blast
  have "match_meta_here (''<!-- operit-skill-json: '' @ (''{'' @ mid @ ''}'') @ '' -->'' @ tail)
           = Some (''{'' @ mid @ ''}'')"
    using assms by (intro match_meta_here_comment) (simp add: mid)
  then have m: "match_meta_here (build_operit_issue_body lib lit description url version)
           = Some (dumps_metadata url version)"
    by (simp only: tail mid)
  have "build_operit_issue_body lib lit description url version \<noteq> []"
    by (simp add: tail)
  then obtain c cs where "build_operit_issue_body lib lit description url version = c # cs"
    by (cases "build_operit_issue_body lib lit description url version") auto
  with m show ?thesis
    by (metis option.simps(5) search_meta.simps(2))
qed

text \<open>
  C7, as stated, fails: the extractor strips its result, so a URL that ends in a space
  comes back without it; and the lazy match of the comment ends at the first \<open>}\<close>
  followed by \<open>-->\<close>, so a URL that contains \<open>}-->\<close> cuts the JSON short and
  nothing is extracted.
\<close>

theorem issue_body_round_trip_counterexample:
  "extract_skill_metadata_repo_url script_lib
     (build_operit_issue_body script_lib no_lit ''A skill.''
        ''https://github.com/o/r/tree/main/skills/pdf '' ''v1'')
   = ''https://github.com/o/r/tree/main/skills/pdf''
   \<and> extract_skill_metadata_repo_url script_lib
     (build_operit_issue_body script_lib no_lit ''A skill.''
        ''https://github.com/o/r/tree/main/a}-->b'' ''v1'')
   = []"
  by code_simp

text \<open>
  C7, amended.  For every repository URL without leading or trailing whitespace, such
  that the compact JSON text of the metadata contains no \<open>}\<close> followed by optional
  whitespace and \<open>-->\<close> (and \<open>json.loads\<close> reads that text back as the metadata),
  extracting the metadata from the body built for the URL yields exactly the URL.
\<close>

theorem issue_body_round_trip:
  assumes "strip repository_url = repository_url"
    and "\<not> early_close (dumps_metadata repository_url version)"
    and "loads lib (dumps_metadata repository_url version) = Some (metadata repository_url version)"
  shows "extract_skill_metadata_repo_url lib
           (build_operit_issue_body lib lit description repository_url version) = repository_url"
proof -
  have ne: "build_operit_issue_body lib lit description repository_url version \<noteq> []"
    by (simp add: build_operit_issue_body_def)
  have "strip (py_str (repr lib) (py_or (JStr repository_url) (py_or JNull (JStr []))))
          = repository_url"
    using assms(1) by (cases "repository_url = []") (simp_all add: py_or_def py_str_def)
  then show ?thesis
    using search_meta_built_body [OF assms(2), of lib lit description] assms(3) ne
    by (simp add: extract_skill_metadata_repo_url_def metadata_def dict_get_def)
qed

theorem issue_body_round_trip_witness:
  "extract_skill_metadata_repo_url script_lib
     (build_operit_issue_body script_lib no_lit ''A skill.''
        ''https://github.com/anthropics/skills/tree/main/skills/pdf'' ''v1'')
   = ''https://github.com/anthropics/skills/tree/main/skills/pdf''"
proof -
  have s: "strip ''https://github.com/anthropics/skills/tree/main/skills/pdf''
             = ''https://github.com/anthropics/skills/tree/main/skills/pdf''"
    by code_simp
  have e: "\<not> early_close (dumps_metadata ''https://github.com/anthropics/skills/tree/main/skills/pdf'' ''v1'')"
    by code_simp
  have l: "loads script_lib (dumps_metadata ''https://github.com/anthropics/skills/tree/main/skills/pdf'' ''v1'')
             = Some (metadata ''https://github.com/anthropics/skills/tree/main/skills/pdf'' ''v1'')"
    unfolding script_lib_def by simp code_simp
  show ?thesis
    by (rule issue_body_round_trip [OF s e l])
qed

section \<open>\<open>main\<close>: the configuration checks\<close>

text \<open>
  C10.  Whatever the command line (dry-run included), when \<open>AI_BASE_URL\<close> or
  \<open>AI_API_KEY\<close> is empty after stripping, \<open>main\<close> prints its message and returns 2 with
  the remote world untouched: no request was made.  With the AI settings present, an
  empty \<open>GITHUB_TOKEN\<close> makes \<open>main\<close> return 2 unless \<open>--dry-run\<close> is set; in dry-run
  mode the run goes on to the rest of \<open>main\<close> whatever the token.
\<close>

theorem main_missing_ai_config:
  "(strip (env_get environ ''AI_BASE_URL'' []) = [] \<or> strip (env_get environ ''AI_API_KEY'' []) = []
      \<longrightarrow> main lib lit a environ st = Some (Inr 2, st\<lparr>printed := printed st @ [msg_missing_ai]\<rparr>))
   \<and> (strip (env_get environ ''AI_BASE_URL'' []) \<noteq> [] \<and> strip (env_get environ ''AI_API_KEY'' []) \<noteq> []
        \<and> strip (env_get environ ''GITHUB_TOKEN'' []) = [] \<and> \<not> arg_dry_run a
      \<longrightarrow> main lib lit a environ st = Some (Inr 2, st\<lparr>printed := printed st @ [msg_missing_token]\<rparr>))
   \<and> (strip (env_get environ ''AI_BASE_URL'' []) \<noteq> [] \<and> strip (env_get environ ''AI_API_KEY'' []) \<noteq> []
        \<and> arg_dry_run a
      \<longrightarrow> main lib lit a environ st = main_checked lib lit a (read_config lib a environ) st)"
  by (simp add: main_def read_config_def print_line_def Let_def)

theorem main_missing_ai_config_witness:
  "main script_lib no_lit (default_args\<lparr>arg_dry_run := True\<rparr>) Map.empty
      \<lparr>world = [], slept = [], printed = []\<rparr>
     = Some (Inr 2, \<lparr>world = [], slept = [], printed = [msg_missing_ai]\<rparr>)
   \<and> main script_lib no_lit default_args ai_environ \<lparr>world = [], slept = [], printed = []\<rparr>
     = Some (Inr 2, \<lparr>world = [], slept = [], printed = [msg_missing_token]\<rparr>)
   \<and> main script_lib no_lit (default_args\<lparr>arg_dry_run := True, arg_target_repo := ''x''\<rparr>)
        ai_environ \<lparr>world = [], slept = [], printed = []\<rparr>
     = Some (Inr 2, \<lparr>world = [], slept = [], printed = [msg_invalid_target]\<rparr>)"
proof -
  have e: "strip [] = []" by (simp add: strip_def lstrip_def rstrip_def)
  have u: "strip ''https://ai.example'' \<noteq> []" "strip ''k'' \<noteq> []" by code_simp+
  let ?st = "\<lparr>world = [] :: outcome list, slept = [], printed = []\<rparr>"
  have a: "main script_lib no_lit (default_args\<lparr>arg_dry_run := True\<rparr>) Map.empty ?st
             = Some (Inr 2, ?st\<lparr>printed := printed ?st @ [msg_missing_ai]\<rparr>)"
    using main_missing_ai_config [of Map.empty script_lib no_lit "default_args\<lparr>arg_dry_run := True\<rparr>" ?st]
    by (simp add: env_get_def e)
  have b: "main script_lib no_lit default_args ai_environ ?st
             = Some (Inr 2, ?st\<lparr>printed := printed ?st @ [msg_missing_token]\<rparr>)"
    using main_missing_ai_config [of ai_environ script_lib no_lit default_args ?st]
    by (simp add: env_get_def ai_environ_def e u default_args_def)
  have c: "main script_lib no_lit (default_args\<lparr>arg_dry_run := True, arg_target_repo := ''x''\<rparr>) ai_environ ?st
             = Some (Inr 2, ?st\<lparr>printed := printed ?st @ [msg_invalid_target]\<rparr>)"
    using main_missing_ai_config [of ai_environ script_lib no_lit
        "default_args\<lparr>arg_dry_run := True, arg_target_repo := ''x''\<rparr>" ?st]
    by (simp add: env_get_def ai_environ_def e u default_args_def main_checked_def print_line_def)
  show ?thesis using a b c by simp
qed
section \<open>\<open>main\<close>: duplicate names\<close>

lemma fst_dict_set:
  "map fst (dict_set m k v) = (if k \<in> fst ` set m then map fst m else map fst m @ [k])"
  by (induction m k v rule: dict_set.induct) auto

lemma name_counts_snoc:
  "name_counts (xs @ [x]) =
     dict_set (name_counts xs) (sk_name x)
       ((case map_of (name_counts xs) (sk_name x) of None \<Rightarrow> 0 | Some n \<Rightarrow> n) + 1)"
  by (simp add: name_counts_def)

lemma name_counts_keys: "distinct (map fst (name_counts skills))"
  by (induction skills rule: rev_induct)
     (simp_all add: name_counts_snoc fst_dict_set, simp add: name_counts_def)

lemma name_counts_lookup:
  "map_of (name_counts skills) k =
     (if k \<in> set (map sk_name skills) then Some (count_list (map sk_name skills) k) else None)"
proof (induction skills arbitrary: k rule: rev_induct)
  case Nil
  show ?case by (simp add: name_counts_def)
next
  case (snoc x xs)
  show ?case
    by (auto simp add: name_counts_snoc map_of_dict_set snoc count_list_0_iff)
qed

lemma duplicate_names_set:
  "set (duplicate_names skills) = {n. 1 < count_list (map sk_name skills) n}"
proof -
  have "(k, v) \<in> set (name_counts skills) \<longleftrightarrow>
          k \<in> set (map sk_name skills) \<and> v = count_list (map sk_name skills) k" for k v
    using map_of_eq_Some_iff [OF name_counts_keys, of skills k v]
    by (auto simp add: name_counts_lookup split: if_splits)
  moreover have "n \<in> set (map sk_name skills)" if "1 < count_list (map sk_name skills) n" for n
    using that count_list_0_iff [of "map sk_name skills" n] by (cases "n \<in> set (map sk_name skills)") auto
  ultimately show ?thesis
    by (auto simp add: duplicate_names_def image_iff)
qed

lemma duplicate_names_sorted: "sorted (duplicate_names skills) \<and> distinct (duplicate_names skills)"
  by (simp add: duplicate_names_def distinct_map_filter name_counts_keys)


lemma main_after_discovery:
  assumes "cfg = read_config lib a environ"
    and "ai_base_url cfg \<noteq> []" and "ai_api_key cfg \<noteq> []"
    and "github_token cfg \<noteq> [] \<or> arg_dry_run a"
    and "CHR ''/'' \<in> set (arg_target_repo a)"
    and "existing_issues lib a cfg st = Some (Inr issues, st3)"
    and "discover lib a cfg st3 = (Inr (skills, truncated_tree), st4)"
  shows "main lib lit a environ st =
           Some (after_discovery lib lit a cfg (existing_urls lib issues) skills truncated_tree st4)"
proof -
  from assms(5) have "arg_target_repo a \<noteq> []" by auto
  with assms show ?thesis
    by (auto simp add: main_def main_checked_def Let_def)
qed

text \<open>
  C6, as stated, fails: the report lists only the first fifty of the sorted colliding
  names.  With fifty-one names that each occur twice, the line printed differs from the
  one that lists them all.
\<close>

theorem report_all_duplicates_counterexample:
  "after_discovery script_lib no_lit default_args example_config [] many_duplicates False
      \<lparr>world = [], slept = [], printed = []\<rparr>
     = (Inr 2, \<lparr>world = [], slept = [], printed = [dup_message (duplicate_names many_duplicates)]\<rparr>)
   \<and> dup_message (duplicate_names many_duplicates) \<noteq> dup_message_all (duplicate_names many_duplicates)"
proof -
  have d: "duplicate_names many_duplicates = two_letter_names"
    by code_simp
  have n: "join '', '' (take 50 two_letter_names) @ '' ...'' \<noteq> join '', '' two_letter_names"
    by code_simp
  have "dup_message two_letter_names \<noteq> dup_message_all two_letter_names"
    using n by (simp add: dup_message_def dup_message_all_def two_letter_names_def)
  moreover have "two_letter_names \<noteq> []"
    by (simp add: two_letter_names_def)
  ultimately show ?thesis
    by (simp add: after_discovery_def d default_args_def print_if_def print_line_def)
qed

text \<open>
  C6, amended.  Once the configuration checks have passed and the items are discovered:
  when the override flag is not set and at least two items share a name, \<open>main\<close>
  returns 2 without processing any item (the remote world is the one the discovery
  left), and prints the report for the sorted colliding names: the names that occur more
  than once, each once, in ascending order, of which the report lists the first fifty,
  followed by \<open>...\<close> when there are more (up to fifty names it lists them all).  For
  items named \<open>a\<close>, \<open>b\<close>, \<open>a\<close> the colliding names are exactly \<open>a\<close>.  With the
  override flag set, \<open>main\<close> goes on to the per-item part whatever the names.
\<close>

theorem main_duplicate_names:
  assumes "cfg = read_config lib a environ"
    and "ai_base_url cfg \<noteq> []" and "ai_api_key cfg \<noteq> []"
    and "github_token cfg \<noteq> [] \<or> arg_dry_run a"
    and "CHR ''/'' \<in> set (arg_target_repo a)"
    and "existing_issues lib a cfg st = Some (Inr issues, st3)"
    and "discover lib a cfg st3 = (Inr (skills, truncated_tree), st4)"
    and "st5 = print_if (arg_verbose a \<and> arg_recursive a \<and> truncated_tree) truncated_warning st4"
  shows "(\<not> arg_allow_duplicate_ids a \<and> (\<exists>n. 1 < count_list (map sk_name skills) n) \<longrightarrow>
            main lib lit a environ st =
              Some (Inr 2, print_line (dup_message (duplicate_names skills)) st5))
       \<and> sorted (duplicate_names skills) \<and> distinct (duplicate_names skills)
       \<and> set (duplicate_names skills) = {n. 1 < count_list (map sk_name skills) n}
       \<and> (length (duplicate_names skills) \<le> 50 \<longrightarrow>
            dup_message (duplicate_names skills) = dup_message_all (duplicate_names skills))
       \<and> (map sk_name skills = [''a'', ''b'', ''a''] \<longrightarrow> duplicate_names skills = [''a''])
       \<and> (arg_allow_duplicate_ids a \<longrightarrow>
            main lib lit a environ st =
              Some (run_skills lib lit a cfg (existing_urls lib issues) skills st5))"
proof -
  note m = main_after_discovery [OF assms(1-7), of lit]
  have dup: "duplicate_names skills \<noteq> []" if "\<exists>n. 1 < count_list (map sk_name skills) n"
    using that duplicate_names_set [of skills] by auto
  have abc: "duplicate_names skills = [''a'']" if "map sk_name skills = [''a'', ''b'', ''a'']"
  proof -
    from that obtain x y z where "skills = [x, y, z]" "sk_name x = ''a''" "sk_name y = ''b''"
      "sk_name z = ''a''"
      by (cases skills; cases "tl skills"; cases "tl (tl skills)") auto
    then show ?thesis
      by (simp add: duplicate_names_def name_counts_def)
  qed
  show ?thesis
    using m dup abc duplicate_names_sorted [of skills] duplicate_names_set [of skills]
    by (auto simp add: after_discovery_def assms(8) dup_message_def dup_message_all_def)
qed

theorem main_duplicate_names_witness:
  "main script_lib no_lit (default_args\<lparr>arg_recursive := True\<rparr>) full_environ
      \<lparr>world = [commit_response, tree_response], slept = [], printed = []\<rparr>
     = Some (Inr 2, \<lparr>world = [], slept = [], printed = [dup_message [''a'']]\<rparr>)"
proof -
  let ?a = "default_args\<lparr>arg_recursive := True\<rparr>"
  let ?st = "\<lparr>world = [commit_response, tree_response], slept = [], printed = []\<rparr>"
  let ?st4 = "\<lparr>world = [] :: outcome list, slept = [], printed = []\<rparr>"
  have cfg: "example_config = read_config script_lib ?a full_environ"
    by code_simp
  have ex: "existing_issues script_lib ?a example_config ?st = Some (Inr [], ?st)"
    by (simp add: existing_issues_def default_args_def print_if_def)
  have disc: "discover script_lib ?a example_config ?st = (Inr (tree_skills, False), ?st4)"
    by code_simp
  have dn: "duplicate_names tree_skills = [''a'']"
    by code_simp
  have cnt: "\<exists>n. 1 < count_list (map sk_name tree_skills) n"
    by (rule exI [of _ "''a''"]) (simp add: tree_skills_def)
  have flags: "\<not> arg_allow_duplicate_ids ?a" "arg_dry_run ?a = False" "arg_verbose ?a = False"
    "CHR ''/'' \<in> set (arg_target_repo ?a)"
    by (simp_all add: default_args_def)
  have creds: "ai_base_url example_config \<noteq> []" "ai_api_key example_config \<noteq> []"
    "github_token example_config \<noteq> [] \<or> arg_dry_run ?a"
    by (simp_all add: example_config_def)
  from main_duplicate_names [OF cfg creds flags(4) ex disc refl, of no_lit]
  show ?thesis
    using cnt flags by (simp add: dn print_if_def print_line_def)
qed

section \<open>\<open>main\<close>: skipping existing items\<close>

lemma existing_urls_set:
  "set (existing_urls lib issues) =
     {u. u \<noteq> [] \<and> (\<exists>d. JDict d \<in> set issues
            \<and> u = extract_skill_metadata_repo_url lib (str_or_empty lib (dict_get d ''body'')))}"
proof -
  let ?g = "\<lambda>d. extract_skill_metadata_repo_url lib (str_or_empty lib (dict_get d ''body''))"
  let ?f = "\<lambda>it. case it of
                    JDict d \<Rightarrow> (let repo_url = ?g d in if repo_url \<noteq> [] then [repo_url] else [])
                  | _ \<Rightarrow> []"
  have F: "set (?f it) = {u. u \<noteq> [] \<and> (\<exists>d. it = JDict d \<and> u = ?g d)}" for it
    by (cases it) (auto simp add: Let_def)
  have "set (existing_urls lib issues) = (\<Union>it \<in> set issues. set (?f it))"
    by (simp add: existing_urls_def)
  also have "\<dots> = (\<Union>it \<in> set issues. {u. u \<noteq> [] \<and> (\<exists>d. it = JDict d \<and> u = ?g d)})"
    by (simp only: F)
  also have "\<dots> = {u. u \<noteq> [] \<and> (\<exists>d. JDict d \<in> set issues \<and> u = ?g d)}"
    by blast
  finally show ?thesis .
qed

lemma try_item_skip_flag:
  "try_item lib lit (a\<lparr>arg_skip_existing := b\<rparr>) cfg skill repo_url title md_file_name md_content st
     = try_item lib lit a cfg skill repo_url title md_file_name md_content st"
  unfolding try_item_def
  by (simp cong: prod.case_cong sum.case_cong if_cong)

lemma process_unskipped_skip_flag:
  "process_unskipped lib lit (a\<lparr>arg_skip_existing := b\<rparr>) cfg skill repo_url cnt st
     = process_unskipped lib lit a cfg skill repo_url cnt st"
  unfolding process_unskipped_def
  by (simp add: try_item_skip_flag cong: prod.case_cong sum.case_cong if_cong)

lemma skill_repo_url_skip_flag:
  "skill_repo_url (a\<lparr>arg_skip_existing := b\<rparr>) skill = skill_repo_url a skill"
  by (simp add: skill_repo_url_def)

lemma process_skill_skipped:
  assumes "arg_skip_existing a" and "skill_repo_url a skill \<in> set existing_repo_urls"
  shows "process_skill lib lit a cfg existing_repo_urls n_total idx skill cnt st =
              (Inr (cnt\<lparr>skipped := skipped cnt + 1\<rparr>),
               print_line (''[skip] '' @ sk_name skill @ '' already exists: '' @ skill_repo_url a skill)
                 (print_if (arg_verbose a)
                    (''[info] ('' @ str_nat idx @ ''/'' @ str_nat n_total @ '') processing skill: ''
                      @ sk_name skill) st))"
  using assms by (simp add: process_skill_def Let_def)

lemma process_skill_not_skipped:
  assumes "skill_repo_url a skill \<notin> set existing_repo_urls"
  shows "process_skill lib lit a cfg existing_repo_urls n_total idx skill cnt st =
              process_skill lib lit (a\<lparr>arg_skip_existing := False\<rparr>) cfg existing_repo_urls
                n_total idx skill cnt st"
  using assms
  by (simp add: process_skill_def Let_def skill_repo_url_skip_flag process_unskipped_skip_flag)


lemma case_result_id:
  "(case x of (Inl e, s) \<Rightarrow> (Inl e, s) | (Inr c, s) \<Rightarrow> (Inr c, s)) = x"
  by (cases x; cases "fst x") auto

lemma process_all_append:
  "process_all lib lit a cfg urls n idx (xs @ ys) cnt st =
     (case process_all lib lit a cfg urls n idx xs cnt st of
        (Inl e, s) \<Rightarrow> (Inl e, s)
      | (Inr c, s) \<Rightarrow> process_all lib lit a cfg urls n (idx + length xs) ys c s)"
proof (induction xs arbitrary: idx cnt st)
  case Nil
  show ?case by simp
next
  case (Cons x xs)
  show ?case
  proof (cases "process_skill lib lit a cfg urls n idx x cnt st")
    case (Pair r s)
    show ?thesis
    proof (cases r)
      case (Inl e)
      with Pair show ?thesis by simp
    next
      case (Inr c)
      have i: "idx + length (x # xs) = Suc idx + length xs" by simp
      from Pair Inr Cons [of "Suc idx" c s] show ?thesis by (simp only: i) simp
    qed
  qed
qed

lemma process_all_single:
  "process_all lib lit a cfg urls n idx [x] cnt st = process_skill lib lit a cfg urls n idx x cnt st"
proof (cases "process_skill lib lit a cfg urls n idx x cnt st")
  case (Pair r s)
  then show ?thesis by (cases r) simp_all
qed


text \<open>
  C8.  Let \<open>--skip-existing\<close> be set and the configuration checks pass.  \<open>main\<close> first
  lists the issues of the target repository with state \<open>all\<close> and no label filter, and
  only then discovers the source items.  The set it tests against holds every non-empty
  \<open>repositoryUrl\<close> extracted from the bodies of the listed issues.  \<open>main\<close> then runs
  its loop over the selected items with this set and returns 0 or 1 after the summary
  line.  For every item of the loop, reached with some counters and state: if its
  repository URL is in the set, its turn adds one to \<open>skipped\<close> and prints its line,
  with no request made (the remote world is unchanged); if not, its turn is the one the
  program makes without the flag.
\<close>

theorem skip_existing_items:
  assumes cfg: "cfg = read_config lib a environ"
    and ai: "ai_base_url cfg \<noteq> []" "ai_api_key cfg \<noteq> []"
    and tok: "github_token cfg \<noteq> [] \<or> arg_dry_run a"
    and tgt: "CHR ''/'' \<in> set (arg_target_repo a)"
    and flag: "arg_skip_existing a"
    and fetch: "iter_issues lib (github_api_base cfg) (arg_target_repo a) (github_token cfg) ''all'' []
             (print_if (arg_verbose a)
                (''[info] labels: '' @ or_default (join '','' (label_list cfg)) ''(none)'')
                (print_if (arg_verbose a) (''[info] target repo: '' @ arg_target_repo a) st))
           = Some (Inr issues, st3)"
    and disc: "discover lib a cfg st3 = (Inr (skills, truncated_tree), st4)"
    and nodup: "arg_allow_duplicate_ids a \<or> duplicate_names skills = []"
    and only: "strip (arg_only_skill a) = [] \<or> (\<exists>s \<in> set skills. sk_name s = strip (arg_only_skill a))"
    and todo: "todo =
           (let s1 = (if strip (arg_only_skill a) \<noteq> []
                      then filter (\<lambda>s. sk_name s = strip (arg_only_skill a)) skills else skills)
            in if arg_limit a > 0 then take (nat (arg_limit a)) s1 else s1)"
    and st5: "st5 = print_if (arg_verbose a \<and> arg_recursive a \<and> truncated_tree) truncated_warning st4"
    and urls: "urls = existing_urls lib issues"
  shows "main lib lit a environ st =
           Some (case process_all lib lit a cfg urls (length todo) 1 todo zero_counters st5 of
                   (Inl e, s) \<Rightarrow> (Inl e, s)
                 | (Inr cnt, s) \<Rightarrow> (Inr (if failed cnt = 0 then 0 else 1), print_line (done_line cnt) s))
       \<and> set urls =
           {u. u \<noteq> [] \<and> (\<exists>d. JDict d \<in> set issues
                \<and> u = extract_skill_metadata_repo_url lib (str_or_empty lib (dict_get d ''body'')))}
       \<and> (\<forall>pre skill post cnt1 st1.
             todo = pre @ skill # post
             \<and> process_all lib lit a cfg urls (length todo) 1 pre zero_counters st5 = (Inr cnt1, st1)
             \<longrightarrow>
               (skill_repo_url a skill \<in> set urls \<longrightarrow>
                  process_all lib lit a cfg urls (length todo) 1 (pre @ [skill]) zero_counters st5 =
                    (Inr (cnt1\<lparr>skipped := skipped cnt1 + 1\<rparr>),
                     print_line (''[skip] '' @ sk_name skill @ '' already exists: '' @ skill_repo_url a skill)
                       (print_if (arg_verbose a)
                          (''[info] ('' @ str_nat (length pre + 1) @ ''/'' @ str_nat (length todo)
                            @ '') processing skill: '' @ sk_name skill) st1)))
               \<and> (skill_repo_url a skill \<notin> set urls \<longrightarrow>
                  process_all lib lit a cfg urls (length todo) 1 (pre @ [skill]) zero_counters st5 =
                    process_skill lib lit (a\<lparr>arg_skip_existing := False\<rparr>) cfg urls (length todo)
                      (length pre + 1) skill cnt1 st1))"
proof (intro conjI allI impI)
  have ex: "existing_issues lib a cfg st = Some (Inr issues, st3)"
    using flag fetch by (simp add: existing_issues_def)
  have m: "main lib lit a environ st =
             Some (after_discovery lib lit a cfg (existing_urls lib issues) skills truncated_tree st4)"
    by (rule main_after_discovery [OF cfg ai tok tgt ex disc])
  have f: "filter (\<lambda>s. sk_name s = strip (arg_only_skill a)) skills \<noteq> []"
    if "strip (arg_only_skill a) \<noteq> []"
    using that only by (auto simp add: filter_empty_conv)
  have lim: "(arg_limit a \<noteq> 0 \<and> 0 < arg_limit a) = (0 < arg_limit a)"
    by auto
  have "after_discovery lib lit a cfg urls skills truncated_tree st4 =
          (case process_all lib lit a cfg urls (length todo) 1 todo zero_counters st5 of
             (Inl e, s) \<Rightarrow> (Inl e, s)
           | (Inr cnt, s) \<Rightarrow> (Inr (if failed cnt = 0 then 0 else 1), print_line (done_line cnt) s))"
  proof (cases "strip (arg_only_skill a) = []")
    case True
    with nodup show ?thesis
      by (auto simp add: after_discovery_def run_skills_def Let_def todo st5 zero_counters_def lim)
  next
    case False
    with nodup f [OF False] show ?thesis
      by (auto simp add: after_discovery_def run_skills_def Let_def todo st5 zero_counters_def lim)
  qed
  then show "main lib lit a environ st =
           Some (case process_all lib lit a cfg urls (length todo) 1 todo zero_counters st5 of
                   (Inl e, s) \<Rightarrow> (Inl e, s)
                 | (Inr cnt, s) \<Rightarrow> (Inr (if failed cnt = 0 then 0 else 1), print_line (done_line cnt) s))"
    by (simp add: m urls)
next
  show "set urls =
           {u. u \<noteq> [] \<and> (\<exists>d. JDict d \<in> set issues
                \<and> u = extract_skill_metadata_repo_url lib (str_or_empty lib (dict_get d ''body'')))}"
    unfolding urls by (rule existing_urls_set)
next
  fix pre skill post cnt1 st1
  assume h: "todo = pre @ skill # post
             \<and> process_all lib lit a cfg urls (length todo) 1 pre zero_counters st5 = (Inr cnt1, st1)"
  from h have p: "process_all lib lit a cfg urls (length todo) 1 pre zero_counters st5 = (Inr cnt1, st1)"
    by (rule conjunct2)
  have "process_all lib lit a cfg urls (length todo) 1 (pre @ [skill]) zero_counters st5 =
          process_all lib lit a cfg urls (length todo) (1 + length pre) [skill] cnt1 st1"
    by (subst process_all_append) (simp only: p prod.case sum.case)
  also have "\<dots> = process_skill lib lit a cfg urls (length todo) (1 + length pre) skill cnt1 st1"
    by (rule process_all_single)
  finally have step: "process_all lib lit a cfg urls (length todo) 1 (pre @ [skill]) zero_counters st5 =
                process_skill lib lit a cfg urls (length todo) (length pre + 1) skill cnt1 st1"
    by (simp only: add.commute)
  {
    assume m: "skill_repo_url a skill \<in> set urls"
    show "process_all lib lit a cfg urls (length todo) 1 (pre @ [skill]) zero_counters st5 =
                    (Inr (cnt1\<lparr>skipped := skipped cnt1 + 1\<rparr>),
                     print_line (''[skip] '' @ sk_name skill @ '' already exists: '' @ skill_repo_url a skill)
                       (print_if (arg_verbose a)
                          (''[info] ('' @ str_nat (length pre + 1) @ ''/'' @ str_nat (length todo)
                            @ '') processing skill: '' @ sk_name skill) st1))"
      unfolding step by (rule process_skill_skipped [OF flag m])
  }
  {
    assume n: "skill_repo_url a skill \<notin> set urls"
    show "process_all lib lit a cfg urls (length todo) 1 (pre @ [skill]) zero_counters st5 =
                    process_skill lib lit (a\<lparr>arg_skip_existing := False\<rparr>) cfg urls (length todo)
                      (length pre + 1) skill cnt1 st1"
      unfolding step by (rule process_skill_not_skipped [OF n])
  }
qed


theorem skip_existing_items_witness:
  "main script_lib no_lit (default_args\<lparr>arg_skip_existing := True, arg_dry_run := True\<rparr>) full_environ
      \<lparr>world = [existing_issue_page, root_listing] @ item_responses, slept = [], printed = []\<rparr>
     = Some (Inr 0,
             \<lparr>world = [], slept = [],
              printed = [''[skip] pdf already exists: https://github.com/anthropics/skills/tree/main/skills/pdf'',
                         ''[dry-run] create issue: xlsx | https://github.com/anthropics/skills/tree/main/skills/xlsx'',
                         ''Done. created=1 skipped=1 failed=0'']\<rparr>)"
proof -
  let ?a = "default_args\<lparr>arg_skip_existing := True, arg_dry_run := True\<rparr>"
  let ?st = "\<lparr>world = [existing_issue_page, root_listing] @ item_responses, slept = [], printed = []\<rparr>"
  let ?st3 = "\<lparr>world = [root_listing] @ item_responses, slept = [], printed = []\<rparr>"
  let ?st4 = "\<lparr>world = item_responses, slept = [], printed = []\<rparr>"
  let ?issues = "[JDict [(''number'', JInt 7),
                         (''body'', JStr (''<!-- operit-skill-json: '' @ dumps_metadata pdf_url ''v1'' @ '' -->''))]]"
  let ?skills = "[\<lparr>sk_name = ''pdf'', sk_path = ''skills/pdf'', sk_html_url = []\<rparr>,
                  \<lparr>sk_name = ''xlsx'', sk_path = ''skills/xlsx'', sk_html_url = []\<rparr>]"
  have cfg: "example_config = read_config script_lib ?a full_environ"
    by code_simp
  have creds: "ai_base_url example_config \<noteq> []" "ai_api_key example_config \<noteq> []"
    "github_token example_config \<noteq> [] \<or> arg_dry_run ?a"
    by (simp_all add: example_config_def)
  have flags: "CHR ''/'' \<in> set (arg_target_repo ?a)" "arg_skip_existing ?a"
    "arg_allow_duplicate_ids ?a \<or> duplicate_names ?skills = []"
    "strip (arg_only_skill ?a) = [] \<or> (\<exists>s \<in> set ?skills. sk_name s = strip (arg_only_skill ?a))"
    by code_simp+
  have fetch: "iter_issues script_lib (github_api_base example_config) (arg_target_repo ?a)
                 (github_token example_config) ''all'' []
                 (print_if (arg_verbose ?a)
                    (''[info] labels: '' @ or_default (join '','' (label_list example_config)) ''(none)'')
                    (print_if (arg_verbose ?a) (''[info] target repo: '' @ arg_target_repo ?a) ?st))
               = Some (Inr ?issues, ?st3)"
    by code_simp
  have disc: "discover script_lib ?a example_config ?st3 = (Inr (?skills, False), ?st4)"
    by code_simp
  have todo: "?skills =
           (let s1 = (if strip (arg_only_skill ?a) \<noteq> []
                      then filter (\<lambda>s. sk_name s = strip (arg_only_skill ?a)) ?skills else ?skills)
            in if arg_limit ?a > 0 then take (nat (arg_limit ?a)) s1 else s1)"
    by code_simp
  have st5: "?st4 = print_if (arg_verbose ?a \<and> arg_recursive ?a \<and> False) truncated_warning ?st4"
    by (simp add: print_if_def)
  have urls: "[pdf_url] = existing_urls script_lib ?issues"
    by code_simp
  have run: "process_all script_lib no_lit ?a example_config [pdf_url] (length ?skills) 1 ?skills
               zero_counters ?st4
             = (Inr \<lparr>created = 1, skipped = 1, failed = 0\<rparr>,
                \<lparr>world = [], slept = [],
                 printed = [''[skip] pdf already exists: https://github.com/anthropics/skills/tree/main/skills/pdf'',
                            ''[dry-run] create issue: xlsx | https://github.com/anthropics/skills/tree/main/skills/xlsx'']\<rparr>)"
    by code_simp
  have dl: "done_line \<lparr>created = 1, skipped = 1, failed = 0\<rparr> = ''Done. created=1 skipped=1 failed=0''"
    by code_simp
  from skip_existing_items [OF cfg creds flags(1,2) fetch disc flags(3,4) todo st5 urls, of no_lit]
  have "main script_lib no_lit ?a full_environ ?st =
           Some (case process_all script_lib no_lit ?a example_config [pdf_url] (length ?skills) 1 ?skills
                        zero_counters ?st4 of
                   (Inl e, s) \<Rightarrow> (Inl e, s)
                 | (Inr cnt, s) \<Rightarrow> (Inr (if failed cnt = 0 then 0 else 1), print_line (done_line cnt) s))"
    by (rule conjunct1)
  then show ?thesis
    using dl by (simp only: run prod.case sum.case) (simp add: print_line_def)
qed

section \<open>\<open>main\<close>: failures of one item\<close>

lemma try_failure_counted:
  assumes "pick_skill_markdown lib (github_api_base cfg) (arg_source_repo a) (arg_source_ref a)
             (sk_path skill) (github_token cfg) st0 = (Inr (md_file_name, md_content), st1)"
    and "try_item lib lit a cfg skill repo_url (safe_title (sk_name skill) []) md_file_name md_content
           (print_if (arg_verbose a)
              (''[info] source markdown: ''
                @ (if md_file_name \<noteq> [] then md_file_name else ''(none)'')) st1) = (Inl e, st3)"
  shows "process_unskipped lib lit a cfg skill repo_url cnt st0 =
           (Inr (cnt\<lparr>failed := failed cnt + 1\<rparr>),
            print_line (''[fail] '' @ sk_name skill @ '': '' @ exc_str e) st3)"
  using assms by (simp add: process_unskipped_def)

lemma pick_failure_propagates:
  assumes "pick_skill_markdown lib (github_api_base cfg) (arg_source_repo a) (arg_source_ref a)
             (sk_path skill) (github_token cfg) st0 = (Inl e, st1)"
  shows "process_unskipped lib lit a cfg skill repo_url cnt st0 = (Inl e, st1)"
  using assms by (simp add: process_unskipped_def)

text \<open>
  C3 on the code.  The claim asks that a failure while the content of an item is picked
  be counted like any other failure of that item.  In the code the call of
  \<open>_pick_skill_markdown\<close> stands before the \<open>try\<close>: when the directory listing of the
  first item \<open>pdf\<close> is answered with 404, \<open>main\<close> dies of the exception; nothing is
  printed, no counter moves and the answers for the second item \<open>xlsx\<close> are never asked
  for.  A failure of the summarization of \<open>pdf\<close>, inside the \<open>try\<close>, is counted and
  printed, \<open>xlsx\<close> is processed and \<open>main\<close> returns 1.
\<close>

theorem pick_failure_aborts_run:
  "main script_lib no_lit (default_args\<lparr>arg_dry_run := True\<rparr>) full_environ
      \<lparr>world = [root_listing, HTTPError 404 ''Not Found'' (Some ''{}'')] @ item_responses,
       slept = [], printed = []\<rparr>
     = Some (Inl (RuntimeError (''GitHub API error: HTTP 404 Not Found'' @ NL @ ''{}'')),
             \<lparr>world = item_responses, slept = [], printed = []\<rparr>)
   \<and> main script_lib no_lit (default_args\<lparr>arg_dry_run := True\<rparr>) full_environ
      \<lparr>world = [root_listing] @ take 2 item_responses
                 @ [HTTPError 500 ''Server Error'' None] @ item_responses,
       slept = [], printed = []\<rparr>
     = Some (Inr 1,
             \<lparr>world = [], slept = [],
              printed = [''[fail] pdf: AI request failed: HTTP 500 Server Error'' @ NL,
                         ''[dry-run] create issue: xlsx | https://github.com/anthropics/skills/tree/main/skills/xlsx'',
                         ''Done. created=1 skipped=0 failed=1'']\<rparr>)"
  by code_simp

end
